theory Spec2Isabelle
  imports Complex_Main
begin

section \<open>JavaScript values\<close>

text \<open>
  A JavaScript number is a finite double, an infinity or NaN: the type \<open>number\<close> (the two
  zeros are not told apart). An operation on numbers is the exact operation on the reals
  followed by the rounding to double precision, and a store into a Float32Array rounds to
  single precision; both round to the nearest value, and to the one with the even
  significand of two nearest. Where the code only moves the contents of one typed array
  into another one of the same precision, which changes no value, a typed array is the
  list of the reals it holds.
  Exceptions are values of type \<open>error\<close>.
\<close>

datatype error = RangeError | TypeError

subsection \<open>Numbers\<close>

datatype number = Finite real | PlusInfinity | MinusInfinity | NaN

instantiation number :: zero
begin

definition zero_number :: number where
  "zero_number = Finite 0"

instance ..

end

text \<open>
  Rounding to a binary format of precision \<open>p\<close> whose least exponent of the unit in the
  last place is \<open>emin\<close>: the real \<open>x\<close> lies in the binade of \<open>\<lfloor>log 2 \<bar>x\<bar>\<rfloor>\<close>, where the
  values of the format are the multiples of \<open>2 ^ e\<close>; the quotient is rounded to the
  nearest integer, a tie to the even one.
\<close>

definition pow2 :: "int \<Rightarrow> real" where
  "pow2 e = (if 0 \<le> e then 2 ^ nat e else 1 / 2 ^ nat (- e))"

definition roundToEven :: "real \<Rightarrow> int" where
  "roundToEven q =
     (let f = \<lfloor>q\<rfloor>; r = q - of_int f
      in if r < 1 / 2 then f else if 1 / 2 < r then f + 1 else if even f then f else f + 1)"

definition binaryRound :: "nat \<Rightarrow> int \<Rightarrow> real \<Rightarrow> real" where
  "binaryRound p emin x =
     (if x = 0 then 0
      else let e = max (\<lfloor>log 2 \<bar>x\<bar>\<rfloor> - (int p - 1)) emin
           in of_int (roundToEven (x / pow2 e)) * pow2 e)"

text \<open>
  The double nearest to a real (precision 53, least exponent -1074), and the rounding
  of a number to single precision (precision 24, least exponent -149) that a store into
  a Float32Array performs. A rounded value beyond the largest finite one is an infinity.
\<close>

definition toDouble :: "real \<Rightarrow> number" where
  "toDouble x =
     (let y = binaryRound 53 (- 1074) x
      in if \<bar>y\<bar> < 2 ^ 1024 then Finite y else if 0 < x then PlusInfinity else MinusInfinity)"

definition toFloat32 :: "number \<Rightarrow> number" where
  "toFloat32 v =
     (case v of
        Finite x \<Rightarrow>
          (let y = binaryRound 24 (- 149) x
           in if \<bar>y\<bar> < 2 ^ 128 then Finite y
              else if 0 < x then PlusInfinity else MinusInfinity)
      | _ \<Rightarrow> v)"

text \<open>The sum \<^verbatim>\<open>a + b\<close> of two numbers and the quotient \<^verbatim>\<open>a / 2\<close>.\<close>

fun number_add :: "number \<Rightarrow> number \<Rightarrow> number" where
  "number_add (Finite a) (Finite b) = toDouble (a + b)"
| "number_add NaN _ = NaN"
| "number_add _ NaN = NaN"
| "number_add PlusInfinity MinusInfinity = NaN"
| "number_add MinusInfinity PlusInfinity = NaN"
| "number_add PlusInfinity _ = PlusInfinity"
| "number_add _ PlusInfinity = PlusInfinity"
| "number_add MinusInfinity _ = MinusInfinity"
| "number_add _ MinusInfinity = MinusInfinity"

fun number_half :: "number \<Rightarrow> number" where
  "number_half (Finite a) = toDouble (a / 2)"
| "number_half v = v"

subsection \<open>Typed arrays\<close>

text \<open>\<^verbatim>\<open>new Float32Array( n )\<close>: \<open>n\<close> zeros.\<close>

definition float32Array :: "nat \<Rightarrow> 'a::zero list" where
  "float32Array n = replicate n 0"

text \<open>
  \<^verbatim>\<open>target.set( source, offset )\<close> of a typed array: a RangeError when the source does
  not fit behind the offset, else the slots \<open>offset ..< offset + length source\<close> are
  overwritten.
\<close>

definition typedArray_set :: "real list \<Rightarrow> real list \<Rightarrow> nat \<Rightarrow> error + real list" where
  "typedArray_set target source offset =
     (if length target < length source + offset then Inl RangeError
      else Inr (take offset target @ source @ drop (offset + length source) target))"

text \<open>\<^verbatim>\<open>a.subarray( b, e )\<close> for \<open>0 \<le> b\<close>, \<open>0 \<le> e\<close>: both ends are clamped to the length.\<close>

definition subarray :: "'a list \<Rightarrow> nat \<Rightarrow> nat \<Rightarrow> 'a list" where
  "subarray a b e = take (e - b) (drop b a)"

section \<open>Buffers\<close>

text \<open>
  Modelled from the spec: the Buffer base class (Buffer, BoxBuffer, CylinderBuffer with
  their \<^verbatim>\<open>addAttributes\<close>, \<^verbatim>\<open>addUniforms\<close>, \<^verbatim>\<open>setAttributes\<close>) is not among the
  sources. A Buffer owns one array per named channel, a uniform set, one rendering
  strategy fixed at construction and a \<open>pickable\<close> flag; every attribute array has
  length entity-count times channel-stride.
\<close>

datatype attribute_type = Type_c | Type_v3 | Type_f

fun itemSize :: "attribute_type \<Rightarrow> nat" where
  "itemSize Type_c = 3"
| "itemSize Type_v3 = 3"
| "itemSize Type_f = 1"

datatype uniform = Scalar real | PerDrawMatrix

record buffer =
  impostor :: bool
  count :: real
  attributes :: "string \<rightharpoonup> real list"
  uniforms :: "string \<rightharpoonup> uniform"
  pickable :: bool

text \<open>
  Modelled from the spec: the allocation of a channel, entity-count times
  channel-stride zeros (a typed array's length is the integer part of the number asked
  for).
\<close>

definition attributeLength :: "real \<Rightarrow> attribute_type \<Rightarrow> nat" where
  "attributeLength n ty = nat \<lfloor>n * real (itemSize ty)\<rfloor>"

fun addAttributes :: "(string \<times> attribute_type) list \<Rightarrow> buffer \<Rightarrow> buffer" where
  "addAttributes [] b = b"
| "addAttributes ((name, ty) # as) b =
     addAttributes as
       (b\<lparr>attributes := (attributes b)(name \<mapsto> float32Array (attributeLength (count b) ty))\<rparr>)"

fun addUniforms :: "(string \<times> uniform) list \<Rightarrow> buffer \<Rightarrow> buffer" where
  "addUniforms [] b = b"
| "addUniforms ((name, u) # us) b =
     addUniforms us (b\<lparr>uniforms := (uniforms b)(name \<mapsto> u)\<rparr>)"

text \<open>
  Modelled from the spec: \<^verbatim>\<open>setAttributes( data )\<close> takes a subset of the named
  channels and updates only those. The channel keeps its allocated length and the given
  values are copied in from slot 0; lengths are not validated. A channel that was never
  allocated, or a null array, is a TypeError (JavaScript's property read on undefined);
  the buffer is returned as the exception leaves it.
\<close>

definition copyInto :: "real list \<Rightarrow> real list \<Rightarrow> real list" where
  "copyInto old new = take (length old) (new @ drop (length new) old)"

fun setAttributes :: "(string \<times> real list option) list \<Rightarrow> buffer \<Rightarrow> error option \<times> buffer" where
  "setAttributes [] b = (None, b)"
| "setAttributes ((name, v) # ds) b =
     (case (attributes b name, v) of
        (Some old, Some new) \<Rightarrow>
          setAttributes ds (b\<lparr>attributes := (attributes b)(name \<mapsto> copyInto old new)\<rparr>)
      | _ \<Rightarrow> (Some TypeError, b))"

text \<open>
  Modelled from the spec: \<^verbatim>\<open>calculateCenterArray\<close> of array-utils.js, the midpoint of
  two position arrays, slot by slot.
\<close>

definition calculateCenterArray :: "real list \<Rightarrow> real list \<Rightarrow> real list" where
  "calculateCenterArray a1 a2 = map (\<lambda>(x, y). (x + y) / 2) (zip a1 a2)"

text \<open>
  Modelled from the spec: what \<^verbatim>\<open>BoxBuffer.call( this, p )\<close> leaves behind: the
  primary position channel, no uniform yet, not pickable. \<^verbatim>\<open>this.impostor\<close> and
  \<^verbatim>\<open>this.count\<close> are set by the caller before the call.
\<close>

definition BoxBuffer :: "bool \<Rightarrow> real \<Rightarrow> buffer" where
  "BoxBuffer imp n =
     \<lparr>impostor = imp, count = n,
      attributes = [''position'' \<mapsto> float32Array (attributeLength n Type_v3)],
      uniforms = Map.empty, pickable = False\<rparr>"

subsection \<open>HyperballStickImpostorBuffer\<close>

record hyperball_params =
  shrink :: "real option"

text \<open>
  The constructor, statement by statement. The three matrix uniforms are registered with
  an update callback (\<^verbatim>\<open>matrixCalc\<close>, run before each draw); \<^verbatim>\<open>makeMapping\<close> touches
  no field of the model.
\<close>

definition HyperballStickImpostorBuffer ::
  "real list \<Rightarrow> real list \<Rightarrow> real list \<Rightarrow> real list \<Rightarrow> real list \<Rightarrow> real list \<Rightarrow>
   real list option \<Rightarrow> real list option \<Rightarrow> hyperball_params \<Rightarrow> error + buffer" where
  "HyperballStickImpostorBuffer position1 position2 color color2 radius1 radius2
       pickingColor pickingColor2 p =
     (let shrink = (case shrink p of Some s \<Rightarrow> s | None \<Rightarrow> 0.14);
          b0 = BoxBuffer True (real (length position1) / 3);
          b1 = addUniforms
                 [(''modelViewProjectionMatrix'', PerDrawMatrix),
                  (''modelViewProjectionMatrixInverse'', PerDrawMatrix),
                  (''modelViewMatrixInverseTranspose'', PerDrawMatrix),
                  (''shrink'', Scalar shrink)] b0;
          b2 = addAttributes
                 [(''color'', Type_c), (''color2'', Type_c), (''radius'', Type_f),
                  (''radius2'', Type_f), (''position1'', Type_v3), (''position2'', Type_v3)] b1
      in case setAttributes
                [(''color'', Some color), (''color2'', Some color2),
                 (''radius'', Some radius1), (''radius2'', Some radius2),
                 (''position1'', Some position1), (''position2'', Some position2),
                 (''position'', Some (calculateCenterArray position1 position2))] b2 of
           (Some e, _) \<Rightarrow> Inl e
         | (None, b3) \<Rightarrow>
             (case pickingColor of
                None \<Rightarrow> Inr b3
              | Some pc \<Rightarrow>
                  (case setAttributes
                          [(''pickingColor'', Some pc), (''pickingColor2'', pickingColor2)]
                          (addAttributes
                             [(''pickingColor'', Type_c), (''pickingColor2'', Type_c)] b3) of
                     (Some e, _) \<Rightarrow> Inl e
                   | (None, b4) \<Rightarrow> Inr (b4\<lparr>pickable := True\<rparr>))))"

subsection \<open>CylinderBuffer\<close>

record cylinder_params =
  cp_shift :: real
  cp_cap :: bool
  cp_radiusSegments :: real
  cp_disableImpostor :: bool
  cp_dullInterior :: bool

text \<open>
  Modelled from the spec: \<^verbatim>\<open>CylinderBuffer\<close> (cylinder-buffer.js) is not among the
  sources. It holds the stick contract of the spec: two endpoint positions, a colour per
  endpoint, a radius, optional picking colours per endpoint; the strategy is chosen at
  construction. It is built the way the stick impostor above is.
\<close>

definition CylinderBuffer ::
  "real list \<Rightarrow> real list \<Rightarrow> real list \<Rightarrow> real list \<Rightarrow> real list \<Rightarrow>
   real list option \<Rightarrow> real list option \<Rightarrow> cylinder_params \<Rightarrow> error + buffer" where
  "CylinderBuffer from to color color2 radius pickingColor pickingColor2 p =
     (let b0 = BoxBuffer (\<not> cp_disableImpostor p) (real (length from) / 3);
          b1 = addAttributes
                 [(''position1'', Type_v3), (''position2'', Type_v3),
                  (''color'', Type_c), (''color2'', Type_c), (''radius'', Type_f)] b0
      in case setAttributes
                [(''position'', Some (calculateCenterArray from to)),
                 (''position1'', Some from), (''position2'', Some to),
                 (''color'', Some color), (''color2'', Some color2),
                 (''radius'', Some radius)] b1 of
           (Some e, _) \<Rightarrow> Inl e
         | (None, b2) \<Rightarrow>
             (case pickingColor of
                None \<Rightarrow> Inr b2
              | Some pc \<Rightarrow>
                  (case setAttributes
                          [(''pickingColor'', Some pc), (''pickingColor2'', pickingColor2)]
                          (addAttributes
                             [(''pickingColor'', Type_c), (''pickingColor2'', Type_c)] b2) of
                     (Some e, _) \<Rightarrow> Inl e
                   | (None, b3) \<Rightarrow> Inr (b3\<lparr>pickable := True\<rparr>))))"

section \<open>Structure views\<close>

text \<open>
  The structural collaborator is not among the sources; a view is modelled by what the
  representations read from it: the atom count, the coordinates an atom proxy shows at an
  index, the number that \<^verbatim>\<open>distanceTo\<close> of the atom proxy at one index returns for the
  proxy at another, the ordered index list a selection expression resolves to, and the
  polymers that \<^verbatim>\<open>eachPolymer\<close> visits for the view's selection, in iteration order.
\<close>

record polymer =
  residueCount :: int
  isNucleic :: bool

type_synonym vec3 = "real \<times> real \<times> real"

type_synonym coordinates = "number \<times> number \<times> number"

record 'p structure_view =
  atomCount :: nat
  atomPosition :: "nat \<Rightarrow> coordinates"
  distanceTo :: "nat \<Rightarrow> nat \<Rightarrow> number"
  getAtomIndices :: "string \<Rightarrow> nat list"
  polymers :: "'p polymer_scheme list"

section \<open>RocketRepresentation\<close>

text \<open>
  One result of \<^verbatim>\<open>helixbundle.getAxis\<close>: flat arrays, one entry per axis segment. The
  number of segments is \<^verbatim>\<open>axis.size.length\<close>.
\<close>

record axis =
  axis_begin :: "real list"
  axis_end :: "real list"
  axis_size :: "real list"
  axis_color :: "real list"
  axis_pickingColor :: "real list"

record axis_data =
  ad_begin :: "real list"
  ad_end :: "real list"
  ad_size :: "real list"
  ad_color :: "real list"
  ad_pickingColor :: "real list"

record 'p rocket_data =
  bufferList :: "buffer list"
  axisList :: "axis list"
  helixbundleList :: "'p polymer_scheme list"
  axisData :: axis_data

record 'p rocket_representation =
  localAngle :: real
  centerDist :: real
  ssBorder :: bool
  colorScheme :: string
  radius :: real
  scale :: real
  radiusSegments :: real
  disableImpostor :: bool
  structureView :: "'p structure_view"
  dataList :: "'p rocket_data list"

text \<open>
  The arguments of \<^verbatim>\<open>getAxis\<close>, read from the representation at each call. The axis
  geometry (helixbundle.js) is a collaborator: \<open>getAxis\<close> is a parameter of the
  functions below.
\<close>

type_synonym axis_params = "real \<times> real \<times> bool \<times> string \<times> real \<times> real"

definition axisParams :: "('p, 'r) rocket_representation_scheme \<Rightarrow> axis_params" where
  "axisParams this =
     (localAngle this, centerDist this, ssBorder this, colorScheme this, radius this, scale this)"

text \<open>
  The callback of \<^verbatim>\<open>eachPolymer\<close> in \<^verbatim>\<open>createData\<close>, run over the polymers in order; the
  state is \<^verbatim>\<open>length\<close>, \<^verbatim>\<open>axisList\<close>, \<^verbatim>\<open>helixbundleList\<close>.
\<close>

fun eachPolymer ::
  "('p polymer_scheme \<Rightarrow> axis) \<Rightarrow> 'p polymer_scheme list \<Rightarrow>
   nat \<times> axis list \<times> 'p polymer_scheme list \<Rightarrow> nat \<times> axis list \<times> 'p polymer_scheme list" where
  "eachPolymer ax [] st = st"
| "eachPolymer ax (polymer # ps) (len, al, hl) =
     (if residueCount polymer < 4 \<or> isNucleic polymer then eachPolymer ax ps (len, al, hl)
      else
        let axis = ax polymer
        in eachPolymer ax ps (len + length (axis_size axis), al @ [axis], hl @ [polymer]))"

text \<open>The five \<^verbatim>\<open>set\<close> calls for one axis; the first that throws ends the call.\<close>

definition setAxis :: "axis_data \<Rightarrow> axis \<Rightarrow> nat \<Rightarrow> error + axis_data" where
  "setAxis ad axis offset =
     (case typedArray_set (ad_begin ad) (axis_begin axis) (offset * 3) of
        Inl e \<Rightarrow> Inl e
      | Inr b \<Rightarrow>
     (case typedArray_set (ad_end ad) (axis_end axis) (offset * 3) of
        Inl e \<Rightarrow> Inl e
      | Inr en \<Rightarrow>
     (case typedArray_set (ad_size ad) (axis_size axis) offset of
        Inl e \<Rightarrow> Inl e
      | Inr s \<Rightarrow>
     (case typedArray_set (ad_color ad) (axis_color axis) (offset * 3) of
        Inl e \<Rightarrow> Inl e
      | Inr c \<Rightarrow>
     (case typedArray_set (ad_pickingColor ad) (axis_pickingColor axis) (offset * 3) of
        Inl e \<Rightarrow> Inl e
      | Inr pc \<Rightarrow>
          Inr \<lparr>ad_begin = b, ad_end = en, ad_size = s, ad_color = c,
               ad_pickingColor = pc\<rparr>)))))"

text \<open>\<^verbatim>\<open>axisList.forEach\<close> with the running \<^verbatim>\<open>offset\<close>.\<close>

fun forEachAxis :: "axis list \<Rightarrow> nat \<Rightarrow> axis_data \<Rightarrow> error + axis_data" where
  "forEachAxis [] offset ad = Inr ad"
| "forEachAxis (axis # as) offset ad =
     (case setAxis ad axis offset of
        Inl e \<Rightarrow> Inl e
      | Inr ad' \<Rightarrow> forEachAxis as (offset + length (axis_size axis)) ad')"

definition createData ::
  "(axis_params \<Rightarrow> 'p polymer_scheme \<Rightarrow> axis) \<Rightarrow> ('p, 'r) rocket_representation_scheme \<Rightarrow>
   'p structure_view \<Rightarrow> error + 'p rocket_data" where
  "createData getAxis this sview =
     (case eachPolymer (getAxis (axisParams this)) (polymers sview) (0, [], []) of
        (len, al, hl) \<Rightarrow>
     (case forEachAxis al 0
             \<lparr>ad_begin = float32Array (len * 3), ad_end = float32Array (len * 3),
              ad_size = float32Array len, ad_color = float32Array (len * 3),
              ad_pickingColor = float32Array (len * 3)\<rparr> of
        Inl e \<Rightarrow> Inl e
      | Inr ad \<Rightarrow>
     (case CylinderBuffer (ad_begin ad) (ad_end ad) (ad_color ad) (ad_color ad) (ad_size ad)
             (Some (ad_pickingColor ad)) (Some (ad_pickingColor ad))
             \<lparr>cp_shift = 0, cp_cap = True, cp_radiusSegments = radiusSegments this,
              cp_disableImpostor = disableImpostor this, cp_dullInterior = True\<rparr> of
        Inl e \<Rightarrow> Inl e
      | Inr cylinderBuffer \<Rightarrow>
          Inr \<lparr>bufferList = [cylinderBuffer], axisList = al, helixbundleList = hl,
               axisData = ad\<rparr>)))"

subsection \<open>RocketRepresentation.updateData\<close>

text \<open>The change-set: an object of flags; \<^verbatim>\<open>what || {}\<close> reads an absent one as no flag.\<close>

record what =
  what_position :: bool
  what_color :: bool
  what_radius :: bool
  what_scale :: bool
  what_labelSize :: bool
  what_labelColor :: bool

definition noChange :: what where
  "noChange =
     \<lparr>what_position = False, what_color = False, what_radius = False, what_scale = False,
      what_labelSize = False, what_labelColor = False\<rparr>"

text \<open>
  Modelled from the spec: \<^verbatim>\<open>build\<close> of the Representation base class is not among the
  sources. A full rebuild discards the current RepresentationData entries and re-derives
  them from scratch for the tracked view with \<^verbatim>\<open>createData\<close>.
\<close>

definition build ::
  "(axis_params \<Rightarrow> 'p polymer_scheme \<Rightarrow> axis) \<Rightarrow> 'p rocket_representation \<Rightarrow>
   error + 'p rocket_representation" where
  "build getAxis this =
     (case createData getAxis this (structureView this) of
        Inl e \<Rightarrow> Inl e
      | Inr d \<Rightarrow> Inr (this\<lparr>dataList := [d]\<rparr>))"

text \<open>
  \<^verbatim>\<open>data.helixbundleList.forEach\<close> in \<^verbatim>\<open>updateData\<close>: the axis is computed anew and the
  lanes named by the change-set are written in place at the running offset. The arrays
  are returned as an exception leaves them.
\<close>

fun forEachHelixbundle ::
  "('p polymer_scheme \<Rightarrow> axis) \<Rightarrow> what \<Rightarrow> 'p polymer_scheme list \<Rightarrow> nat \<Rightarrow> axis_data \<Rightarrow>
   error option \<times> axis_data" where
  "forEachHelixbundle ax w [] offset ad = (None, ad)"
| "forEachHelixbundle ax w (helixbundle # hs) offset ad =
     (let axis = ax helixbundle
      in case (if what_color w then typedArray_set (ad_color ad) (axis_color axis) (offset * 3)
               else Inr (ad_color ad)) of
           Inl e \<Rightarrow> (Some e, ad)
         | Inr c \<Rightarrow>
        (case (if what_radius w \<or> what_scale w
               then typedArray_set (ad_size ad) (axis_size axis) offset
               else Inr (ad_size ad)) of
           Inl e \<Rightarrow> (Some e, ad\<lparr>ad_color := c\<rparr>)
         | Inr s \<Rightarrow>
             forEachHelixbundle ax w hs (offset + length (axis_size axis))
               (ad\<lparr>ad_color := c, ad_size := s\<rparr>)))"

text \<open>The object \<^verbatim>\<open>cylinderData\<close> handed to \<^verbatim>\<open>setAttributes\<close>.\<close>

definition cylinderData :: "what \<Rightarrow> axis_data \<Rightarrow> (string \<times> real list option) list" where
  "cylinderData w ad =
     (if what_color w \<or> what_radius w then
        (if what_color w
         then [(''color'', Some (ad_color ad)), (''color2'', Some (ad_color ad))] else []) @
        (if what_radius w \<or> what_scale w then [(''radius'', Some (ad_size ad))] else [])
      else [])"

text \<open>
  \<^verbatim>\<open>updateData( what, data )\<close>: the result is the exception thrown, if any, the
  representation and the data object after the call.
\<close>

definition updateData ::
  "(axis_params \<Rightarrow> 'p polymer_scheme \<Rightarrow> axis) \<Rightarrow> 'p rocket_representation \<Rightarrow> what option \<Rightarrow>
   'p rocket_data \<Rightarrow> error option \<times> 'p rocket_representation \<times> 'p rocket_data" where
  "updateData getAxis this what data =
     (let w = (case what of None \<Rightarrow> noChange | Some w \<Rightarrow> w)
      in if what_position w then
           (case build getAxis this of
              Inl e \<Rightarrow> (Some e, this, data)
            | Inr this' \<Rightarrow> (None, this', data))
         else
           (case (if what_color w \<or> what_radius w
                  then forEachHelixbundle (getAxis (axisParams this)) w
                         (helixbundleList data) 0 (axisData data)
                  else (None, axisData data)) of
              (Some e, ad) \<Rightarrow> (Some e, this, data\<lparr>axisData := ad\<rparr>)
            | (None, ad) \<Rightarrow>
                (case bufferList data of
                   [] \<Rightarrow> (Some TypeError, this, data\<lparr>axisData := ad\<rparr>)
                 | b # bs \<Rightarrow>
                     (case setAttributes (cylinderData w ad) b of
                        (err, b') \<Rightarrow>
                          (err, this, data\<lparr>axisData := ad, bufferList := b' # bs\<rparr>)))))"

section \<open>LabelRepresentation\<close>

text \<open>
  \<^verbatim>\<open>updateData\<close> of the label representation. The atom data come from the view
  (\<^verbatim>\<open>data.sview.getAtomData( this.getAtomParams( what ) )\<close>, a collaborator): \<open>getAtomData\<close>
  is a parameter. The text buffer is \<^verbatim>\<open>data.bufferList[ 0 ]\<close>.
\<close>

record atom_data =
  atom_position :: "real list"
  atom_radius :: "real list"
  atom_color :: "real list"

record label_data =
  label_bufferList :: "buffer list"

definition textData :: "what option \<Rightarrow> atom_data \<Rightarrow> (string \<times> real list option) list" where
  "textData what atomData =
     (if (case what of None \<Rightarrow> True | Some w \<Rightarrow> what_position w)
      then [(''position'', Some (atom_position atomData))] else []) @
     (if (case what of None \<Rightarrow> True | Some w \<Rightarrow> what_radius w)
      then [(''size'', Some (atom_radius atomData))] else []) @
     (if (case what of None \<Rightarrow> True | Some w \<Rightarrow> what_color w)
      then [(''color'', Some (atom_color atomData))] else [])"

definition label_updateData ::
  "(what option \<Rightarrow> atom_data) \<Rightarrow> what option \<Rightarrow> label_data \<Rightarrow> error option \<times> label_data" where
  "label_updateData getAtomData what data =
     (let atomData = getAtomData what
      in case label_bufferList data of
           [] \<Rightarrow> (Some TypeError, data)
         | b # bs \<Rightarrow>
             (case setAttributes (textData what atomData) b of
                (err, b') \<Rightarrow> (err, data\<lparr>label_bufferList := b' # bs\<rparr>)))"

section \<open>DistanceRepresentation\<close>

subsection \<open>Arrays and numbers\<close>

text \<open>
  \<^verbatim>\<open>new Array( n )\<close> has \<open>n\<close> holes; a hole is \<open>None\<close>. An assignment beyond the end
  extends the array.
\<close>

definition newArray :: "nat \<Rightarrow> 'a option list" where
  "newArray n = replicate n None"

definition array_put :: "'a option list \<Rightarrow> nat \<Rightarrow> 'a \<Rightarrow> 'a option list" where
  "array_put a i v =
     (if i < length a then a[i := Some v]
      else a @ replicate (i - length a) None @ [Some v])"

text \<open>
  An assignment of a number to a slot of a Float32Array: the slot receives the number
  rounded to single precision; beyond the end the assignment is ignored.
\<close>

definition typedArray_put :: "number list \<Rightarrow> nat \<Rightarrow> number \<Rightarrow> number list" where
  "typedArray_put a i v = (if i < length a then a[i := toFloat32 v] else a)"

text \<open>
  \<^verbatim>\<open>x.toFixed( f )\<close> after ECMAScript. A number that is not finite is written by its
  name. Else the sign comes first; a magnitude from \<open>10^21\<close> onwards is written as
  \<^verbatim>\<open>Number::toString\<close> writes it, in exponent notation; a smaller one as the integer \<open>n\<close>
  with \<open>n / 10^f\<close> nearest to it (the larger one of two), in decimal with at least
  \<open>f + 1\<close> digits and the point before the last \<open>f\<close>. \<^verbatim>\<open>Number::toString\<close> is the
  parameter \<open>numberToString\<close>.
\<close>

fun decimal :: "nat \<Rightarrow> string" where
  "decimal n =
     (if n < 10 then [''0123456789'' ! n]
      else decimal (n div 10) @ [''0123456789'' ! (n mod 10)])"

definition toFixed :: "(real \<Rightarrow> string) \<Rightarrow> number \<Rightarrow> nat \<Rightarrow> string" where
  "toFixed numberToString v f =
     (case v of
        NaN \<Rightarrow> ''NaN''
      | PlusInfinity \<Rightarrow> ''Infinity''
      | MinusInfinity \<Rightarrow> ''-Infinity''
      | Finite x \<Rightarrow>
          (let s = (if x < 0 then ''-'' else '''');
               y = \<bar>x\<bar>;
               m = (if 10 ^ 21 \<le> y then numberToString y
                    else
                      let n = nat \<lfloor>y * 10 ^ f + 1 / 2\<rfloor>;
                          ds = decimal n
                      in if f \<noteq> 0
                         then let z = (if length ds \<le> f
                                       then replicate (f + 1 - length ds) CHR ''0'' @ ds
                                       else ds)
                              in take (length z - f) z @ ''.'' @ drop (length z - f) z
                         else ds)
           in s @ m))"

text \<open>
  Modelled from the spec: \<^verbatim>\<open>uniformArray( n, a )\<close> and \<^verbatim>\<open>uniformArray3( n, a, b, c )\<close> of
  array-utils.js are not among the sources. They make the attribute array of \<open>n\<close>
  entities (entity-count times channel-stride slots) that holds the same value, or the
  same triple, for each.
\<close>

definition uniformArray :: "nat \<Rightarrow> real \<Rightarrow> real list" where
  "uniformArray n a = replicate n a"

definition uniformArray3 :: "nat \<Rightarrow> real \<Rightarrow> real \<Rightarrow> real \<Rightarrow> real list" where
  "uniformArray3 n a b c = concat (replicate n [a, b, c])"

subsection \<open>getDistanceData\<close>

text \<open>
  Modelled from the spec: the bond store (bond-store.js) is not among the sources. It is
  the bond table in which the synthetic bond between the two representatives is
  registered: the list of the bonds added, each the two atom indices and the bond order.
  The bond set has one bit per bond, all set.
\<close>

type_synonym bond_store = "(nat \<times> nat \<times> nat) list"

definition addBond :: "bond_store \<Rightarrow> nat \<Rightarrow> nat \<Rightarrow> nat \<Rightarrow> bond_store" where
  "addBond bondStore ap1 ap2 bondOrder = bondStore @ [(ap1, ap2, bondOrder)]"

record distance_data =
  dd_text :: "string option list"
  dd_position :: "number list"
  dd_bondSet :: "bool list"
  dd_bondStore :: bond_store

text \<open>
  \<^verbatim>\<open>atomPair.forEach( function( pair, i ){ ... } )\<close>: \<open>i\<close> is the index of the pair in the
  input, the state is \<^verbatim>\<open>j\<close>, \<^verbatim>\<open>text\<close>, \<^verbatim>\<open>position\<close> and the bond store. \<open>j\<close> counts the
  pairs dropped so far, so it never exceeds \<open>i\<close>. The two atom proxies stand at the
  first index of each side; \<^verbatim>\<open>( ap1.x + ap2.x ) / 2\<close> is a sum and a quotient of numbers.
\<close>

fun forEachPair ::
  "(real \<Rightarrow> string) \<Rightarrow> ('p, 'v) structure_view_scheme \<Rightarrow> (string \<times> string) list \<Rightarrow> nat \<Rightarrow>
   nat \<times> string option list \<times> number list \<times> bond_store \<Rightarrow>
   nat \<times> string option list \<times> number list \<times> bond_store" where
  "forEachPair numberToString sview [] i st = st"
| "forEachPair numberToString sview (pair # ps) i (j, text, position, bondStore) =
     (let i' = i - j;
          i3 = i' * 3
      in case (getAtomIndices sview (fst pair), getAtomIndices sview (snd pair)) of
           (ap1 # _, ap2 # _) \<Rightarrow>
             (case (atomPosition sview ap1, atomPosition sview ap2) of
                ((x1, y1, z1), (x2, y2, z2)) \<Rightarrow>
                  forEachPair numberToString sview ps (i + 1)
                    (j,
                     array_put text i' (toFixed numberToString (distanceTo sview ap1 ap2) 2),
                     typedArray_put
                       (typedArray_put
                          (typedArray_put position (i3 + 0) (number_half (number_add x1 x2)))
                          (i3 + 1) (number_half (number_add y1 y2)))
                       (i3 + 2) (number_half (number_add z1 z2)),
                     addBond bondStore ap1 ap2 1))
         | _ \<Rightarrow> forEachPair numberToString sview ps (i + 1) (j + 1, text, position, bondStore))"

definition getDistanceData ::
  "(real \<Rightarrow> string) \<Rightarrow> ('p, 'v) structure_view_scheme \<Rightarrow> (string \<times> string) list \<Rightarrow>
   distance_data" where
  "getDistanceData numberToString sview atomPair =
     (let n = length atomPair
      in case forEachPair numberToString sview atomPair 0
                (0, newArray n, float32Array (n * 3), []) of
           (j, text, position, bondStore) \<Rightarrow>
             \<lparr>dd_text = text,
              dd_position = (if j > 0 then subarray position 0 ((n - j) * 3) else position),
              dd_bondSet = replicate (length bondStore) True,
              dd_bondStore = bondStore\<rparr>)"

subsection \<open>create\<close>

text \<open>
  The text buffer (text-buffer.js, not among the sources) is modelled by the arguments
  its constructor receives. The bond data come from the view (\<^verbatim>\<open>sview.getBondData\<close>, a
  collaborator): \<open>getBondData\<close> is a parameter. The label colour is kept as the red,
  green and blue that \<^verbatim>\<open>new THREE.Color( this.labelColor )\<close> shows.
\<close>

record text_buffer =
  tb_position :: "number list"
  tb_size :: "real list"
  tb_color :: "real list"
  tb_text :: "string option list"
  tb_visible :: bool

record bond_data =
  bd_position1 :: "real list"
  bd_position2 :: "real list"
  bd_color1 :: "real list"
  bd_color2 :: "real list"
  bd_radius :: "real list"
  bd_pickingColor1 :: "real list option"
  bd_pickingColor2 :: "real list option"

datatype any_buffer = TextBuffer text_buffer | Cylinder buffer

record 'p distance_entry =
  de_sview :: "'p structure_view"
  de_bondSet :: "bool list"
  de_bondStore :: bond_store
  de_position :: "number list"
  de_bufferList :: "any_buffer list"

record 'p distance_representation =
  dr_structureView :: "'p structure_view"
  dr_atomPair :: "(string \<times> string) list"
  dr_labelSize :: real
  dr_labelColor :: "real \<times> real \<times> real"
  dr_labelVisible :: bool
  dr_radiusSegments :: real
  dr_disableImpostor :: bool
  dr_textBuffer :: "text_buffer option"
  dr_cylinderBuffer :: "buffer option"
  dr_dataList :: "'p distance_entry list"

text \<open>
  \<^verbatim>\<open>create()\<close>: the exception thrown, if any, and the representation after the call.
\<close>

definition create ::
  "(real \<Rightarrow> string) \<Rightarrow>
   ('p structure_view \<Rightarrow> what option \<Rightarrow> bool list \<Rightarrow> bond_store \<Rightarrow> bond_data) \<Rightarrow>
   'p distance_representation \<Rightarrow> error option \<times> 'p distance_representation" where
  "create numberToString getBondData this =
     (if atomCount (dr_structureView this) = 0 then (None, this)
      else
        let n = length (dr_atomPair this)
        in if n = 0 then (None, this)
           else
             let distanceData =
                   getDistanceData numberToString (dr_structureView this) (dr_atomPair this);
                 textBuffer =
                   (case dr_labelColor this of
                      (r, g, b) \<Rightarrow>
                        \<lparr>tb_position = dd_position distanceData,
                         tb_size = uniformArray n (dr_labelSize this),
                         tb_color = uniformArray3 n r g b,
                         tb_text = dd_text distanceData,
                         tb_visible = dr_labelVisible this\<rparr>);
                 this1 = this\<lparr>dr_textBuffer := Some textBuffer\<rparr>;
                 bondData = getBondData (dr_structureView this) None
                              (dd_bondSet distanceData) (dd_bondStore distanceData)
             in case CylinderBuffer (bd_position1 bondData) (bd_position2 bondData)
                       (bd_color1 bondData) (bd_color2 bondData) (bd_radius bondData)
                       (bd_pickingColor1 bondData) (bd_pickingColor2 bondData)
                       \<lparr>cp_shift = 0, cp_cap = True,
                        cp_radiusSegments = dr_radiusSegments this,
                        cp_disableImpostor = dr_disableImpostor this,
                        cp_dullInterior = True\<rparr> of
                  Inl e \<Rightarrow> (Some e, this1)
                | Inr cylinderBuffer \<Rightarrow>
                    (None,
                     this1\<lparr>dr_cylinderBuffer := Some cylinderBuffer,
                       dr_dataList := dr_dataList this1 @
                         [\<lparr>de_sview = dr_structureView this,
                           de_bondSet = dd_bondSet distanceData,
                           de_bondStore = dd_bondStore distanceData,
                           de_position = dd_position distanceData,
                           de_bufferList = [TextBuffer textBuffer, Cylinder cylinderBuffer]\<rparr>]\<rparr>))"

section \<open>ViewerControls\<close>

text \<open>
  The viewer (viewer.js) is a collaborator. Of its state the controls read and write the
  rotation group (its quaternion, and the matrix derived from it), the position of the
  translation group and the position of the camera; the rest of the viewer is the
  extension of the record. \<^verbatim>\<open>viewer.updateZoom\<close> and \<^verbatim>\<open>viewer.requestRender\<close> are not among
  the sources: they are parameters of the methods that call them.
\<close>

type_synonym quaternion = "real \<times> real \<times> real \<times> real"

record viewer =
  rotationGroup_quaternion :: quaternion
  rotationGroup_matrix :: "real list"
  translationGroup_position :: vec3
  camera_position :: vec3

text \<open>The getters \<^verbatim>\<open>position\<close> and \<^verbatim>\<open>rotation\<close> of the controls.\<close>

definition controls_position :: "'a viewer_scheme \<Rightarrow> vec3" where
  "controls_position v = translationGroup_position v"

definition controls_rotation :: "'a viewer_scheme \<Rightarrow> quaternion" where
  "controls_rotation v = rotationGroup_quaternion v"

text \<open>\<^verbatim>\<open>distance( z )\<close>: the three statements in order.\<close>

definition distance ::
  "('a viewer_scheme \<Rightarrow> 'a viewer_scheme) \<Rightarrow> ('a viewer_scheme \<Rightarrow> 'a viewer_scheme) \<Rightarrow>
   real \<Rightarrow> 'a viewer_scheme \<Rightarrow> 'a viewer_scheme" where
  "distance updateZoom requestRender z v =
     requestRender
       (updateZoom
          (v\<lparr>camera_position := (case camera_position v of (x, y, _) \<Rightarrow> (x, y, z))\<rparr>))"

text \<open>
  What the claim about \<^verbatim>\<open>distance\<close> needs of a method of the viewer: it leaves the
  camera position and the two groups as they are.
\<close>

definition keepsOrientation :: "('a viewer_scheme \<Rightarrow> 'a viewer_scheme) \<Rightarrow> bool" where
  "keepsOrientation f \<longleftrightarrow>
     (\<forall>v. rotationGroup_quaternion (f v) = rotationGroup_quaternion v \<and>
          rotationGroup_matrix (f v) = rotationGroup_matrix v \<and>
          translationGroup_position (f v) = translationGroup_position v \<and>
          camera_position (f v) = camera_position v)"

text \<open>
  A viewer with a near plane and a dirty flag, whose \<^verbatim>\<open>updateZoom\<close> derives the near
  plane from the camera distance and whose \<^verbatim>\<open>requestRender\<close> raises the flag.
\<close>

record example_viewer = viewer +
  near :: real
  renderRequested :: bool

definition exampleUpdateZoom :: "example_viewer \<Rightarrow> example_viewer" where
  "exampleUpdateZoom v = v\<lparr>near := max (1 / 10) (\<bar>case camera_position v of (_, _, z) \<Rightarrow> z\<bar> / 2)\<rparr>"

definition exampleRequestRender :: "example_viewer \<Rightarrow> example_viewer" where
  "exampleRequestRender v = v\<lparr>renderRequested := True\<rparr>"

definition exampleViewer :: example_viewer where
  "exampleViewer =
     \<lparr>rotationGroup_quaternion = (0, 0, 0, 1),
      rotationGroup_matrix = [1, 0, 0, 0, 0, 1, 0, 0, 0, 0, 1, 0, 0, 0, 0, 1],
      translationGroup_position = (1, 2, 3), camera_position = (0, 0, - 50),
      near = 25, renderRequested = False\<rparr>"

subsection \<open>setOrientation and getOrientation\<close>

text \<open>
  An orientation is a \<^verbatim>\<open>Matrix4\<close> of three.js, here the list of its sixteen elements in
  column-major order. \<^verbatim>\<open>Matrix4.decompose\<close>, \<^verbatim>\<open>Matrix4.scale\<close> and
  \<^verbatim>\<open>Matrix4.setPosition\<close> belong to three.js: they are the parameters \<open>decompose\<close>,
  \<open>matrixScale\<close> and \<open>matrixSetPosition\<close>.

  \<^verbatim>\<open>setOrientation( orientation )\<close>: \<^verbatim>\<open>rotationGroup.setRotationFromQuaternion( tmpQ )\<close>
  assigns the quaternion of the group (the matrix of a three.js object is recomputed from
  its quaternion when the scene is rendered, not by this call);
  \<^verbatim>\<open>translationGroup.position.copy( tmpP )\<close> assigns the position; then the depth of the
  camera is assigned and a rendering requested.
\<close>

definition setOrientation ::
  "(real list \<Rightarrow> vec3 \<times> quaternion \<times> vec3) \<Rightarrow> ('a viewer_scheme \<Rightarrow> 'a viewer_scheme) \<Rightarrow>
   real list \<Rightarrow> 'a viewer_scheme \<Rightarrow> 'a viewer_scheme" where
  "setOrientation decompose requestRender orientation v =
     (case decompose orientation of
        (tmpP, tmpQ, tmpS) \<Rightarrow>
          requestRender
            (v\<lparr>rotationGroup_quaternion := tmpQ,
               translationGroup_position := tmpP,
               camera_position :=
                 (case camera_position v of (x, y, _) \<Rightarrow> (x, y, - snd (snd tmpS)))\<rparr>))"

text \<open>
  \<^verbatim>\<open>getOrientation( optionalTarget )\<close>: the matrix returned, a copy of the matrix of the
  rotation group, scaled by the negated depth of the camera and given the position of the
  translation group.
\<close>

definition getOrientation ::
  "(real list \<Rightarrow> vec3 \<Rightarrow> real list) \<Rightarrow> (real list \<Rightarrow> vec3 \<Rightarrow> real list) \<Rightarrow>
   'a viewer_scheme \<Rightarrow> real list" where
  "getOrientation matrixScale matrixSetPosition v =
     (let m = rotationGroup_matrix v;
          z = - snd (snd (camera_position v));
          m1 = matrixScale m (z, z, z)
      in matrixSetPosition m1 (translationGroup_position v))"

text \<open>
  The three.js operations on element lists, for the concrete case: \<^verbatim>\<open>compose\<close> builds the
  matrix of a position, a unit quaternion and a scale; \<^verbatim>\<open>scale\<close> multiplies the first
  three columns; \<^verbatim>\<open>setPosition\<close> overwrites the elements 12 to 14; \<^verbatim>\<open>decompose\<close> reads
  the position from the elements 12 to 14, the scale from the lengths of the first three
  columns (the first negated for a negative determinant) and the quaternion from the
  columns divided by the scale, as \<^verbatim>\<open>Quaternion.setFromRotationMatrix\<close> does.
\<close>

definition matrix4_compose :: "vec3 \<Rightarrow> quaternion \<Rightarrow> vec3 \<Rightarrow> real list" where
  "matrix4_compose p q s =
     (case (p, q, s) of
        ((px, py, pz), (x, y, z, w), (sx, sy, sz)) \<Rightarrow>
          let x2 = x + x; y2 = y + y; z2 = z + z;
              xx = x * x2; xy = x * y2; xz = x * z2;
              yy = y * y2; yz = y * z2; zz = z * z2;
              wx = w * x2; wy = w * y2; wz = w * z2
          in [(1 - (yy + zz)) * sx, (xy + wz) * sx, (xz - wy) * sx, 0,
              (xy - wz) * sy, (1 - (xx + zz)) * sy, (yz + wx) * sy, 0,
              (xz + wy) * sz, (yz - wx) * sz, (1 - (xx + yy)) * sz, 0,
              px, py, pz, 1])"

definition matrix4_scale :: "real list \<Rightarrow> vec3 \<Rightarrow> real list" where
  "matrix4_scale te v =
     (case v of
        (x, y, z) \<Rightarrow>
          map (\<lambda>a. a * x) (take 4 te) @ map (\<lambda>a. a * y) (take 4 (drop 4 te)) @
          map (\<lambda>a. a * z) (take 4 (drop 8 te)) @ drop 12 te)"

definition matrix4_setPosition :: "real list \<Rightarrow> vec3 \<Rightarrow> real list" where
  "matrix4_setPosition te v = (case v of (x, y, z) \<Rightarrow> te[12 := x, 13 := y, 14 := z])"

definition matrix4_determinant :: "real list \<Rightarrow> real" where
  "matrix4_determinant te =
     (let n11 = te ! 0; n12 = te ! 4; n13 = te ! 8; n14 = te ! 12;
          n21 = te ! 1; n22 = te ! 5; n23 = te ! 9; n24 = te ! 13;
          n31 = te ! 2; n32 = te ! 6; n33 = te ! 10; n34 = te ! 14;
          n41 = te ! 3; n42 = te ! 7; n43 = te ! 11; n44 = te ! 15
      in n41 * (n14 * n23 * n32 - n13 * n24 * n32 - n14 * n22 * n33
                + n12 * n24 * n33 + n13 * n22 * n34 - n12 * n23 * n34)
       + n42 * (n11 * n23 * n34 - n11 * n24 * n33 + n14 * n21 * n33
                - n13 * n21 * n34 + n13 * n24 * n31 - n14 * n23 * n31)
       + n43 * (n11 * n24 * n32 - n11 * n22 * n34 - n14 * n21 * n32
                + n12 * n21 * n34 + n14 * n22 * n31 - n12 * n24 * n31)
       + n44 * (- n13 * n22 * n31 - n11 * n23 * n32 + n11 * n22 * n33
                + n13 * n21 * n32 - n12 * n21 * n33 + n12 * n23 * n31))"

definition setFromRotationMatrix :: "real list \<Rightarrow> quaternion" where
  "setFromRotationMatrix te =
     (let m11 = te ! 0; m12 = te ! 4; m13 = te ! 8;
          m21 = te ! 1; m22 = te ! 5; m23 = te ! 9;
          m31 = te ! 2; m32 = te ! 6; m33 = te ! 10;
          trace = m11 + m22 + m33
      in if 0 < trace
         then let s = (1 / 2) / sqrt (trace + 1)
              in ((m32 - m23) * s, (m13 - m31) * s, (m21 - m12) * s, (1 / 4) / s)
         else if m22 < m11 \<and> m33 < m11
         then let s = 2 * sqrt (1 + m11 - m22 - m33)
              in ((1 / 4) * s, (m12 + m21) / s, (m13 + m31) / s, (m32 - m23) / s)
         else if m33 < m22
         then let s = 2 * sqrt (1 + m22 - m11 - m33)
              in ((m12 + m21) / s, (1 / 4) * s, (m23 + m32) / s, (m13 - m31) / s)
         else let s = 2 * sqrt (1 + m33 - m11 - m22)
              in ((m13 + m31) / s, (m23 + m32) / s, (1 / 4) * s, (m21 - m12) / s))"

definition matrix4_decompose :: "real list \<Rightarrow> vec3 \<times> quaternion \<times> vec3" where
  "matrix4_decompose te =
     (let sx0 = sqrt ((te ! 0)\<^sup>2 + (te ! 1)\<^sup>2 + (te ! 2)\<^sup>2);
          sy = sqrt ((te ! 4)\<^sup>2 + (te ! 5)\<^sup>2 + (te ! 6)\<^sup>2);
          sz = sqrt ((te ! 8)\<^sup>2 + (te ! 9)\<^sup>2 + (te ! 10)\<^sup>2);
          sx = (if matrix4_determinant te < 0 then - sx0 else sx0);
          m1 = map (\<lambda>a. a * (1 / sx)) (take 3 te) @ [te ! 3] @
               map (\<lambda>a. a * (1 / sy)) (take 3 (drop 4 te)) @ [te ! 7] @
               map (\<lambda>a. a * (1 / sz)) (take 3 (drop 8 te)) @ drop 11 te
      in ((te ! 12, te ! 13, te ! 14), setFromRotationMatrix m1, (sx, sy, sz)))"

text \<open>
  An orientation: the half turn about the z axis, the translation (1, 2, 3) and the
  scale 2.
\<close>

definition exampleOrientation :: "real list" where
  "exampleOrientation = matrix4_compose (1, 2, 3) (0, 0, 1, 0) (2, 2, 2)"

section \<open>Notions of the claims about the axis data\<close>

text \<open>
  The eligibility of a polymer as the specification words it: at least four residues and
  not nucleic.
\<close>

definition eligible :: "'p polymer_scheme \<Rightarrow> bool" where
  "eligible p \<longleftrightarrow> 4 \<le> residueCount p \<and> \<not> isNucleic p"

text \<open>The segment count of an axis, and the running offset before the \<open>k\<close>-th axis.\<close>

definition segmentCount :: "axis \<Rightarrow> nat" where
  "segmentCount a = length (axis_size a)"

definition runningOffset :: "axis list \<Rightarrow> nat \<Rightarrow> nat" where
  "runningOffset al k = sum_list (map segmentCount (take k al))"

text \<open>
  The contract of \<^verbatim>\<open>getAxis\<close>: three floats per segment for the points and colours, one
  for the size.
\<close>

definition wellFormedAxis :: "axis \<Rightarrow> bool" where
  "wellFormedAxis a \<longleftrightarrow>
     length (axis_begin a) = 3 * segmentCount a \<and> length (axis_end a) = 3 * segmentCount a \<and>
     length (axis_color a) = 3 * segmentCount a \<and>
     length (axis_pickingColor a) = 3 * segmentCount a"

section \<open>Notions of the claims about the distance data\<close>

text \<open>
  A pair resolves when both its expressions select an atom; the representative of an
  expression is the first index of its index list; the bond of a pair joins its two
  representatives.
\<close>

definition resolves :: "('p, 'v) structure_view_scheme \<Rightarrow> string \<times> string \<Rightarrow> bool" where
  "resolves sview pair \<longleftrightarrow>
     getAtomIndices sview (fst pair) \<noteq> [] \<and> getAtomIndices sview (snd pair) \<noteq> []"

definition representative :: "('p, 'v) structure_view_scheme \<Rightarrow> string \<Rightarrow> nat" where
  "representative sview expr = hd (getAtomIndices sview expr)"

definition pairBond :: "('p, 'v) structure_view_scheme \<Rightarrow> string \<times> string \<Rightarrow> nat \<times> nat \<times> nat" where
  "pairBond sview pair = (representative sview (fst pair), representative sview (snd pair), 1)"



text \<open>
  The midpoint as the arithmetic of numbers computes it, in double precision, and as a
  Float32Array holds it, rounded to single precision.
\<close>

definition doubleMidpoint :: "coordinates \<Rightarrow> coordinates \<Rightarrow> number list" where
  "doubleMidpoint a b =
     (case (a, b) of
        ((x1, y1, z1), (x2, y2, z2)) \<Rightarrow>
          [number_half (number_add x1 x2), number_half (number_add y1 y2),
           number_half (number_add z1 z2)])"

definition storedMidpoint :: "coordinates \<Rightarrow> coordinates \<Rightarrow> number list" where
  "storedMidpoint a b = map toFloat32 (doubleMidpoint a b)"

text \<open>
  The values of a binary format of precision \<open>p\<close> and least exponent \<open>emin\<close>: an integer
  of fewer than \<open>p\<close> bits times a power of two not below the least. A number that a
  Float32Array holds unchanged is an infinity, NaN or a finite value of single precision
  within the range.
\<close>

definition representable :: "nat \<Rightarrow> int \<Rightarrow> real \<Rightarrow> bool" where
  "representable p emin x \<longleftrightarrow> (\<exists>m e. x = of_int m * pow2 e \<and> \<bar>m\<bar> < 2 ^ p \<and> emin \<le> e)"

fun float32Value :: "number \<Rightarrow> bool" where
  "float32Value (Finite x) \<longleftrightarrow> representable 24 (- 149) x \<and> \<bar>x\<bar> < 2 ^ 128"
| "float32Value v \<longleftrightarrow> True"






text \<open>The label, the computed midpoint and the stored midpoint of a pair.\<close>

definition pairLabel ::
  "(real \<Rightarrow> string) \<Rightarrow> ('p, 'v) structure_view_scheme \<Rightarrow> string \<times> string \<Rightarrow> string" where
  "pairLabel numberToString sview pair =
     toFixed numberToString
       (distanceTo sview (representative sview (fst pair)) (representative sview (snd pair))) 2"

definition pairDouble :: "('p, 'v) structure_view_scheme \<Rightarrow> string \<times> string \<Rightarrow> number list" where
  "pairDouble sview pair =
     doubleMidpoint (atomPosition sview (representative sview (fst pair)))
       (atomPosition sview (representative sview (snd pair)))"

definition pairMidpoint :: "('p, 'v) structure_view_scheme \<Rightarrow> string \<times> string \<Rightarrow> number list" where
  "pairMidpoint sview pair =
     storedMidpoint (atomPosition sview (representative sview (fst pair)))
       (atomPosition sview (representative sview (snd pair)))"

section \<open>A concrete structure\<close>

text \<open>
  Two atoms, A at the origin and B at (3, 4, 0), at the distance 5; the expression \<open>A\<close>
  selects atom 0,
  \<open>B\<close> atom 1, \<open>*\<close> both, anything else nothing. Five polymers, of which the third is
  too short and the fourth nucleic; the axis of a polymer has as many segments as it has
  residues beyond four, so that the eligible polymers bring 3, 0 and 5 segments.
\<close>

definition examplePolymers :: "polymer list" where
  "examplePolymers =
     [\<lparr>residueCount = 7, isNucleic = False\<rparr>, \<lparr>residueCount = 4, isNucleic = False\<rparr>,
      \<lparr>residueCount = 3, isNucleic = False\<rparr>, \<lparr>residueCount = 12, isNucleic = True\<rparr>,
      \<lparr>residueCount = 9, isNucleic = False\<rparr>]"

definition exampleView :: "unit structure_view" where
  "exampleView =
     \<lparr>atomCount = 2,
      atomPosition = (\<lambda>i. if i = 0 then (Finite 0, Finite 0, Finite 0)
                           else (Finite 3, Finite 4, Finite 0)),
      distanceTo = (\<lambda>i j. if i = j then Finite 0 else Finite 5),
      getAtomIndices = (\<lambda>s. if s = ''A'' then [0] else if s = ''B'' then [1]
                             else if s = ''*'' then [0, 1] else []),
      polymers = examplePolymers\<rparr>"

definition exampleGetAxis :: "axis_params \<Rightarrow> polymer \<Rightarrow> axis" where
  "exampleGetAxis ps p =
     (case ps of (la, cd, sb, cs, r, sc) \<Rightarrow>
        let n = nat (residueCount p - 4)
        in \<lparr>axis_begin = replicate (3 * n) (of_int (residueCount p)),
            axis_end = replicate (3 * n) (of_int (residueCount p) + 1),
            axis_size = replicate n (r * sc),
            axis_color = replicate (3 * n) (if cs = ''sstruc'' then 1 else 0),
            axis_pickingColor = replicate (3 * n) (of_int (residueCount p))\<rparr>)"

definition exampleRocket :: "unit rocket_representation" where
  "exampleRocket =
     \<lparr>localAngle = 30, centerDist = 2.5, ssBorder = False, colorScheme = ''sstruc'',
      radius = 1.5, scale = 1, radiusSegments = 10, disableImpostor = False,
      structureView = exampleView, dataList = []\<rparr>"

text \<open>Change-sets: colour only, position only.\<close>

definition colorOnly :: what where
  "colorOnly = noChange\<lparr>what_color := True\<rparr>"

definition positionOnly :: what where
  "positionOnly = noChange\<lparr>what_position := True\<rparr>"

text \<open>A data object with no axis and no buffer.\<close>

definition emptyData :: "unit rocket_data" where
  "emptyData =
     \<lparr>bufferList = [], axisList = [], helixbundleList = [],
      axisData = \<lparr>ad_begin = [], ad_end = [], ad_size = [], ad_color = [],
        ad_pickingColor = []\<rparr>\<rparr>"

text \<open>A text buffer for the two atoms, and atom data to update it with.\<close>

definition exampleTextBuffer :: buffer where
  "exampleTextBuffer =
     \<lparr>impostor = False, count = 2,
      attributes = [''position'' \<mapsto> [0, 0, 0, 3, 4, 0], ''size'' \<mapsto> [1, 1],
                    ''color'' \<mapsto> [1, 1, 1, 1, 1, 1]],
      uniforms = Map.empty, pickable = False\<rparr>"

definition exampleAtomData :: "what option \<Rightarrow> atom_data" where
  "exampleAtomData what =
     \<lparr>atom_position = [0, 0, 0, 3, 4, 0], atom_radius = [2, 2],
      atom_color = [1, 0, 0, 0, 0, 1]\<rparr>"

text \<open>
  A distance representation on the two atoms: the pair A, B resolves, the pair A, Z does
  not. Bond data for it: the two atoms' coordinates for each bond of the store.
\<close>

definition exampleCoordinates :: "nat \<Rightarrow> real list" where
  "exampleCoordinates i = (if i = 0 then [0, 0, 0] else [3, 4, 0])"

definition exampleBondData ::
  "unit structure_view \<Rightarrow> what option \<Rightarrow> bool list \<Rightarrow> bond_store \<Rightarrow> bond_data" where
  "exampleBondData sview what bondSet bondStore =
     \<lparr>bd_position1 = concat (map (\<lambda>(a, b, order). exampleCoordinates a) bondStore),
      bd_position2 = concat (map (\<lambda>(a, b, order). exampleCoordinates b) bondStore),
      bd_color1 = concat (map (\<lambda>bond. [1, 0, 0]) bondStore),
      bd_color2 = concat (map (\<lambda>bond. [0, 0, 1]) bondStore),
      bd_radius = map (\<lambda>bond. 3 / 20) bondStore,
      bd_pickingColor1 = None, bd_pickingColor2 = None\<rparr>"

definition exampleDistance :: "unit distance_representation" where
  "exampleDistance =
     \<lparr>dr_structureView = exampleView, dr_atomPair = [(''A'', ''B''), (''A'', ''Z'')],
      dr_labelSize = 2, dr_labelColor = (1, 1, 1), dr_labelVisible = True,
      dr_radiusSegments = 10, dr_disableImpostor = False, dr_textBuffer = None,
      dr_cylinderBuffer = None, dr_dataList = []\<rparr>"


definition exampleNumberToString :: "real \<Rightarrow> string" where
  "exampleNumberToString x = ''1.1805916207174113e+21''"

section \<open>Verification\<close>

subsection \<open>Axis concatenation\<close>

lemma eachPolymer_filter:
  "eachPolymer ax ps (len, al, hl) =
     (len + sum_list (map (segmentCount \<circ> ax) (filter eligible ps)),
      al @ map ax (filter eligible ps), hl @ filter eligible ps)"
  by (induction ps arbitrary: len al hl) (auto simp: eligible_def segmentCount_def [abs_def] Let_def)

lemma typedArray_set_Inr:
  "typedArray_set t s off = Inr r \<longleftrightarrow>
     length s + off \<le> length t \<and> r = take off t @ s @ drop (off + length s) t"
  by (auto simp: typedArray_set_def)

lemma written_take:
  "length s + off \<le> length t \<Longrightarrow>
     take (off + length s) (take off t @ s @ drop (off + length s) t) = take off t @ s"
  by simp

lemma written_drop:
  "length s + off \<le> length t \<Longrightarrow>
     drop (off + length s + m) (take off t @ s @ drop (off + length s) t)
       = drop (off + length s + m) t"
  by (simp add: add.commute add.left_commute)

lemma setAxis_Inr:
  "setAxis ad a off = Inr ad' \<longleftrightarrow>
     typedArray_set (ad_begin ad) (axis_begin a) (off * 3) = Inr (ad_begin ad') \<and>
     typedArray_set (ad_end ad) (axis_end a) (off * 3) = Inr (ad_end ad') \<and>
     typedArray_set (ad_size ad) (axis_size a) off = Inr (ad_size ad') \<and>
     typedArray_set (ad_color ad) (axis_color a) (off * 3) = Inr (ad_color ad') \<and>
     typedArray_set (ad_pickingColor ad) (axis_pickingColor a) (off * 3) = Inr (ad_pickingColor ad')"
  by (cases ad') (auto simp: setAxis_def split: sum.splits)

lemma forEachAxis_lane:
  assumes step: "\<And>ad a off ad1. setAxis ad a off = Inr ad1 \<Longrightarrow>
             typedArray_set (f ad) (g a) (off * k) = Inr (f ad1)"
    and run: "forEachAxis as off ad = Inr ad'"
    and len: "\<forall>a \<in> set as. length (g a) = segmentCount a * k"
  shows "f ad' = take (off * k) (f ad) @ concat (map g as)
            @ drop ((off + sum_list (map segmentCount as)) * k) (f ad)"
  using run len
proof (induction as arbitrary: off ad)
  case Nil
  then show ?case by simp
next
  case (Cons a as)
  from Cons.prems(1) obtain ad1 where s: "setAxis ad a off = Inr ad1"
    and r: "forEachAxis as (off + length (axis_size a)) ad1 = Inr ad'"
    by (auto split: sum.splits)
  have l: "length (g a) = length (axis_size a) * k"
    using Cons.prems(2) by (simp add: segmentCount_def [abs_def])
  from step [OF s] have w: "length (g a) + off * k \<le> length (f ad)"
    and e: "f ad1 = take (off * k) (f ad) @ g a @ drop (off * k + length (g a)) (f ad)"
    by (simp_all add: typedArray_set_Inr)
  have o: "(off + length (axis_size a)) * k = off * k + length (g a)"
    by (simp add: l algebra_simps)
  have o': "(off + length (axis_size a) + sum_list (map segmentCount as)) * k
      = off * k + length (g a) + sum_list (map segmentCount as) * k"
    by (simp add: l algebra_simps)
  have t: "take ((off + length (axis_size a)) * k) (f ad1) = take (off * k) (f ad) @ g a"
    unfolding e o by (rule written_take [OF w])
  have d: "drop ((off + length (axis_size a) + sum_list (map segmentCount as)) * k) (f ad1)
      = drop ((off + length (axis_size a) + sum_list (map segmentCount as)) * k) (f ad)"
    unfolding e o' by (rule written_drop [OF w])
  have w': "\<forall>a \<in> set as. length (g a) = segmentCount a * k"
    using Cons.prems(2) by simp
  show ?case
    unfolding Cons.IH [OF r w'] t d by (simp add: segmentCount_def [abs_def] add.assoc)
qed

lemma forEachAxis_succeeds:
  "\<forall>a \<in> set as. wellFormedAxis a \<Longrightarrow> off + sum_list (map segmentCount as) \<le> n \<Longrightarrow>
   length (ad_size ad) = n \<Longrightarrow> length (ad_begin ad) = n * 3 \<Longrightarrow> length (ad_end ad) = n * 3 \<Longrightarrow>
   length (ad_color ad) = n * 3 \<Longrightarrow> length (ad_pickingColor ad) = n * 3 \<Longrightarrow>
   \<exists>ad'. forEachAxis as off ad = Inr ad'"
proof (induction as arbitrary: off ad)
  case Nil
  then show ?case by simp
next
  case (Cons a as)
  have wf: "wellFormedAxis a" and fit: "off + segmentCount a \<le> n"
    using Cons.prems(1,2) by simp_all
  define ad1 where "ad1 =
     \<lparr>ad_begin = take (off * 3) (ad_begin ad) @ axis_begin a
         @ drop (off * 3 + length (axis_begin a)) (ad_begin ad),
      ad_end = take (off * 3) (ad_end ad) @ axis_end a
         @ drop (off * 3 + length (axis_end a)) (ad_end ad),
      ad_size = take off (ad_size ad) @ axis_size a
         @ drop (off + length (axis_size a)) (ad_size ad),
      ad_color = take (off * 3) (ad_color ad) @ axis_color a
         @ drop (off * 3 + length (axis_color a)) (ad_color ad),
      ad_pickingColor = take (off * 3) (ad_pickingColor ad) @ axis_pickingColor a
         @ drop (off * 3 + length (axis_pickingColor a)) (ad_pickingColor ad)\<rparr>"
  have s: "setAxis ad a off = Inr ad1"
    using wf fit Cons.prems(3-7)
    by (simp add: setAxis_Inr typedArray_set_Inr ad1_def wellFormedAxis_def segmentCount_def [abs_def])
  have "\<exists>ad'. forEachAxis as (off + length (axis_size a)) ad1 = Inr ad'"
  proof (rule Cons.IH)
    show "\<forall>a \<in> set as. wellFormedAxis a" using Cons.prems(1) by simp
    show "off + length (axis_size a) + sum_list (map segmentCount as) \<le> n"
      using Cons.prems(2) by (simp add: segmentCount_def [abs_def])
  qed (use wf fit Cons.prems(3-7) in
        \<open>simp_all add: ad1_def wellFormedAxis_def segmentCount_def [abs_def]\<close>)
  then show ?case by (simp add: s)
qed

lemma nth_concat_offset:
  "k < length xss \<Longrightarrow> i < length (xss ! k) \<Longrightarrow>
     concat xss ! (sum_list (map length (take k xss)) + i) = xss ! k ! i"
proof (induction xss arbitrary: k)
  case Nil
  then show ?case by simp
next
  case (Cons xs xss)
  show ?case
  proof (cases k)
    case 0
    with Cons.prems show ?thesis by (simp add: nth_append)
  next
    case (Suc j)
    with Cons.prems Cons.IH [of j] show ?thesis by (simp add: nth_append)
  qed
qed

lemma CylinderBuffer_picking:
  "\<exists>b. CylinderBuffer f t c c2 r (Some pc) (Some pc2) p = Inr b"
  by (simp add: CylinderBuffer_def BoxBuffer_def Let_def)


lemma createData_result:
  assumes wf: "\<forall>p \<in> set (polymers sview). eligible p \<longrightarrow> wellFormedAxis (getAxis (axisParams this) p)"
  defines "al \<equiv> map (getAxis (axisParams this)) (filter eligible (polymers sview))"
  shows "\<exists>b. createData getAxis this sview =
           Inr \<lparr>bufferList = [b], axisList = al,
                helixbundleList = filter eligible (polymers sview),
                axisData = \<lparr>ad_begin = concat (map axis_begin al),
                  ad_end = concat (map axis_end al), ad_size = concat (map axis_size al),
                  ad_color = concat (map axis_color al),
                  ad_pickingColor = concat (map axis_pickingColor al)\<rparr>\<rparr>"
proof -
  define n where "n = sum_list (map segmentCount al)"
  define ad0 where "ad0 =
     \<lparr>ad_begin = float32Array (n * 3), ad_end = float32Array (n * 3),
      ad_size = float32Array n, ad_color = float32Array (n * 3),
      ad_pickingColor = float32Array (n * 3)\<rparr>"
  have ep: "eachPolymer (getAxis (axisParams this)) (polymers sview) (0, [], [])
      = (n, al, filter eligible (polymers sview))"
    by (simp add: eachPolymer_filter n_def al_def comp_def)
  have wfa: "\<forall>a \<in> set al. wellFormedAxis a"
    using wf by (auto simp: al_def)
  have "\<exists>ad'. forEachAxis al 0 ad0 = Inr ad'"
    by (rule forEachAxis_succeeds [where n = n, OF wfa])
       (simp_all add: n_def ad0_def float32Array_def)
  then obtain ad' where run: "forEachAxis al 0 ad0 = Inr ad'" ..
  have b: "ad_begin ad' = concat (map axis_begin al)"
  proof -
    have l: "\<forall>a \<in> set al. length (axis_begin a) = segmentCount a * 3"
      using wfa by (simp add: wellFormedAxis_def)
    from forEachAxis_lane [where f = ad_begin and g = axis_begin and k = 3, OF _ run l]
    show ?thesis by (simp add: setAxis_Inr ad0_def float32Array_def n_def)
  qed
  have e: "ad_end ad' = concat (map axis_end al)"
  proof -
    have l: "\<forall>a \<in> set al. length (axis_end a) = segmentCount a * 3"
      using wfa by (simp add: wellFormedAxis_def)
    from forEachAxis_lane [where f = ad_end and g = axis_end and k = 3, OF _ run l]
    show ?thesis by (simp add: setAxis_Inr ad0_def float32Array_def n_def)
  qed
  have s: "ad_size ad' = concat (map axis_size al)"
  proof -
    have l: "\<forall>a \<in> set al. length (axis_size a) = segmentCount a * 1"
      by (simp add: segmentCount_def)
    from forEachAxis_lane [where f = ad_size and g = axis_size and k = 1, OF _ run l]
    show ?thesis by (simp add: setAxis_Inr ad0_def float32Array_def n_def)
  qed
  have c: "ad_color ad' = concat (map axis_color al)"
  proof -
    have l: "\<forall>a \<in> set al. length (axis_color a) = segmentCount a * 3"
      using wfa by (simp add: wellFormedAxis_def)
    from forEachAxis_lane [where f = ad_color and g = axis_color and k = 3, OF _ run l]
    show ?thesis by (simp add: setAxis_Inr ad0_def float32Array_def n_def)
  qed
  have p: "ad_pickingColor ad' = concat (map axis_pickingColor al)"
  proof -
    have l: "\<forall>a \<in> set al. length (axis_pickingColor a) = segmentCount a * 3"
      using wfa by (simp add: wellFormedAxis_def)
    from forEachAxis_lane [where f = ad_pickingColor and g = axis_pickingColor and k = 3, OF _ run l]
    show ?thesis by (simp add: setAxis_Inr ad0_def float32Array_def n_def)
  qed
  have ad': "ad' = \<lparr>ad_begin = concat (map axis_begin al),
                  ad_end = concat (map axis_end al), ad_size = concat (map axis_size al),
                  ad_color = concat (map axis_color al),
                  ad_pickingColor = concat (map axis_pickingColor al)\<rparr>"
    using b e s c p by (cases ad') simp
  obtain cb where cb: "CylinderBuffer (ad_begin ad') (ad_end ad') (ad_color ad') (ad_color ad')
      (ad_size ad') (Some (ad_pickingColor ad')) (Some (ad_pickingColor ad'))
      \<lparr>cp_shift = 0, cp_cap = True, cp_radiusSegments = radiusSegments this,
       cp_disableImpostor = disableImpostor this, cp_dullInterior = True\<rparr> = Inr cb"
    using CylinderBuffer_picking by blast
  have "createData getAxis this sview =
          Inr \<lparr>bufferList = [cb], axisList = al,
               helixbundleList = filter eligible (polymers sview), axisData = ad'\<rparr>"
    using run cb by (simp add: createData_def ep ad0_def)
  then show ?thesis unfolding ad' by blast
qed


lemma lane_nth:
  assumes len: "\<forall>a \<in> set al. length (g a) = segmentCount a * m"
    and k: "k < length al" and j: "j < segmentCount (al ! k) * m"
  shows "concat (map g al) ! (runningOffset al k * m + j) = g (al ! k) ! j"
proof -
  have "\<forall>a \<in> set (take k al). length (g a) = segmentCount a * m"
    using len by (auto dest: in_set_takeD)
  then have "sum_list (map length (take k (map g al))) = runningOffset al k * m"
    by (simp add: runningOffset_def take_map comp_def sum_list_mult_const cong: map_cong)
  moreover have "j < length (map g al ! k)"
    using len k j by simp
  ultimately show ?thesis
    using nth_concat_offset [of k "map g al" j] k by simp
qed

lemma lane_length:
  assumes len: "\<forall>a \<in> set al. length (g a) = segmentCount a * m"
  shows "length (concat (map g al)) = sum_list (map segmentCount al) * m"
  using len by (simp add: length_concat comp_def sum_list_mult_const cong: map_cong)

text \<open>
  C3. When every eligible polymer's axis is well formed, \<^verbatim>\<open>createData\<close> returns, the axes
  are those of the eligible polymers in iteration order, the flat arrays have the total
  segment count as length (times three for the strided lanes), and segment \<open>i\<close> of the
  \<open>k\<close>-th axis sits at the running offset of the axes before it plus \<open>i\<close>.
\<close>

theorem createData_running_offset:
  assumes wf: "\<forall>p \<in> set (polymers sview).
                 eligible p \<longrightarrow> wellFormedAxis (getAxis (axisParams this) p)"
  shows "\<exists>d. createData getAxis this sview = Inr d \<and>
           axisList d = map (getAxis (axisParams this)) (filter eligible (polymers sview)) \<and>
           length (ad_size (axisData d)) = sum_list (map segmentCount (axisList d)) \<and>
           length (ad_begin (axisData d)) = sum_list (map segmentCount (axisList d)) * 3 \<and>
           length (ad_end (axisData d)) = sum_list (map segmentCount (axisList d)) * 3 \<and>
           length (ad_color (axisData d)) = sum_list (map segmentCount (axisList d)) * 3 \<and>
           length (ad_pickingColor (axisData d)) = sum_list (map segmentCount (axisList d)) * 3 \<and>
           (\<forall>k i. k < length (axisList d) \<and> i < segmentCount (axisList d ! k) \<longrightarrow>
              ad_size (axisData d) ! (runningOffset (axisList d) k + i)
                = axis_size (axisList d ! k) ! i \<and>
              (\<forall>c < 3.
                 ad_begin (axisData d) ! ((runningOffset (axisList d) k + i) * 3 + c)
                   = axis_begin (axisList d ! k) ! (i * 3 + c) \<and>
                 ad_end (axisData d) ! ((runningOffset (axisList d) k + i) * 3 + c)
                   = axis_end (axisList d ! k) ! (i * 3 + c) \<and>
                 ad_color (axisData d) ! ((runningOffset (axisList d) k + i) * 3 + c)
                   = axis_color (axisList d ! k) ! (i * 3 + c) \<and>
                 ad_pickingColor (axisData d) ! ((runningOffset (axisList d) k + i) * 3 + c)
                   = axis_pickingColor (axisList d ! k) ! (i * 3 + c)))"
proof -
  define al where "al = map (getAxis (axisParams this)) (filter eligible (polymers sview))"
  from createData_result [where getAxis = getAxis and this = this and sview = sview, OF wf] obtain b where
    d: "createData getAxis this sview =
           Inr \<lparr>bufferList = [b], axisList = al,
                helixbundleList = filter eligible (polymers sview),
                axisData = \<lparr>ad_begin = concat (map axis_begin al),
                  ad_end = concat (map axis_end al), ad_size = concat (map axis_size al),
                  ad_color = concat (map axis_color al),
                  ad_pickingColor = concat (map axis_pickingColor al)\<rparr>\<rparr>"
    unfolding al_def by blast
  have wfa: "\<forall>a \<in> set al. wellFormedAxis a"
    using wf by (auto simp: al_def)
  have lb: "\<forall>a \<in> set al. length (axis_begin a) = segmentCount a * 3"
    and le: "\<forall>a \<in> set al. length (axis_end a) = segmentCount a * 3"
    and lc: "\<forall>a \<in> set al. length (axis_color a) = segmentCount a * 3"
    and lp: "\<forall>a \<in> set al. length (axis_pickingColor a) = segmentCount a * 3"
    using wfa by (simp_all add: wellFormedAxis_def)
  have ls: "\<forall>a \<in> set al. length (axis_size a) = segmentCount a * 1"
    by (simp add: segmentCount_def)
  have idx: "(runningOffset al k + i) * 3 + c = runningOffset al k * 3 + (i * 3 + c)" for k i c
    by (simp add: algebra_simps)
  have nth: "concat (map axis_size al) ! (runningOffset al k + i) = axis_size (al ! k) ! i \<and>
      (\<forall>c < 3.
         concat (map axis_begin al) ! ((runningOffset al k + i) * 3 + c)
           = axis_begin (al ! k) ! (i * 3 + c) \<and>
         concat (map axis_end al) ! ((runningOffset al k + i) * 3 + c)
           = axis_end (al ! k) ! (i * 3 + c) \<and>
         concat (map axis_color al) ! ((runningOffset al k + i) * 3 + c)
           = axis_color (al ! k) ! (i * 3 + c) \<and>
         concat (map axis_pickingColor al) ! ((runningOffset al k + i) * 3 + c)
           = axis_pickingColor (al ! k) ! (i * 3 + c))"
    if k: "k < length al" and i: "i < segmentCount (al ! k)" for k i
  proof (intro conjI allI impI)
    show "concat (map axis_size al) ! (runningOffset al k + i) = axis_size (al ! k) ! i"
      using lane_nth [OF ls k, of i] i by simp
  next
    fix c :: nat assume "c < 3"
    then have j: "i * 3 + c < segmentCount (al ! k) * 3" using i by simp
    show "concat (map axis_begin al) ! ((runningOffset al k + i) * 3 + c)
           = axis_begin (al ! k) ! (i * 3 + c)"
      unfolding idx by (rule lane_nth [OF lb k j])
    show "concat (map axis_end al) ! ((runningOffset al k + i) * 3 + c)
           = axis_end (al ! k) ! (i * 3 + c)"
      unfolding idx by (rule lane_nth [OF le k j])
    show "concat (map axis_color al) ! ((runningOffset al k + i) * 3 + c)
           = axis_color (al ! k) ! (i * 3 + c)"
      unfolding idx by (rule lane_nth [OF lc k j])
    show "concat (map axis_pickingColor al) ! ((runningOffset al k + i) * 3 + c)
           = axis_pickingColor (al ! k) ! (i * 3 + c)"
      unfolding idx by (rule lane_nth [OF lp k j])
  qed
  show ?thesis
    unfolding d al_def [symmetric]
    using lane_length [OF lb] lane_length [OF le] lane_length [OF lc] lane_length [OF lp]
      lane_length [OF ls] nth
    by simp
qed

text \<open>
  C10. The polymers that contribute are exactly those with at least four residues that
  are not nucleic, in iteration order, one axis each; the polymers skipped change nothing
  of the result.
\<close>

theorem createData_eligibility:
  assumes "createData getAxis this sview = Inr d"
  shows "helixbundleList d = filter (\<lambda>p. 4 \<le> residueCount p \<and> \<not> isNucleic p) (polymers sview) \<and>
         axisList d = map (getAxis (axisParams this)) (helixbundleList d) \<and>
         createData getAxis this
            (sview\<lparr>polymers := filter (\<lambda>p. 4 \<le> residueCount p \<and> \<not> isNucleic p) (polymers sview)\<rparr>)
           = Inr d"
proof -
  have e: "eligible = (\<lambda>p. 4 \<le> residueCount p \<and> \<not> isNucleic p)"
    by (simp add: eligible_def fun_eq_iff)
  show ?thesis
    using assms unfolding e [symmetric]
    by (auto simp: createData_def eachPolymer_filter split: sum.splits)
qed

subsection \<open>The axis concatenation on the concrete structure\<close>

lemma ex_filter: "filter eligible examplePolymers =
   [\<lparr>residueCount = 7, isNucleic = False\<rparr>, \<lparr>residueCount = 4, isNucleic = False\<rparr>, \<lparr>residueCount = 9, isNucleic = False\<rparr>]"
  by (simp add: examplePolymers_def eligible_def)

lemma ex_wf: "\<forall>p \<in> set (polymers exampleView).
     eligible p \<longrightarrow> wellFormedAxis (exampleGetAxis (axisParams exampleRocket) p)"
  by (simp add: exampleView_def examplePolymers_def eligible_def wellFormedAxis_def exampleGetAxis_def axisParams_def exampleRocket_def segmentCount_def Let_def)

theorem createData_running_offset_witness:
  "\<exists>d. createData exampleGetAxis exampleRocket exampleView = Inr d \<and>
       map segmentCount (axisList d) = [3, 0, 5] \<and>
       length (ad_size (axisData d)) = 8 \<and> length (ad_begin (axisData d)) = 24 \<and>
       ad_begin (axisData d) ! ((3 + 0 + 4) * 3 + 2) = axis_begin (axisList d ! 2) ! (4 * 3 + 2)"
proof -
  from createData_running_offset [where getAxis = exampleGetAxis and this = exampleRocket
      and sview = exampleView, OF ex_wf]
  obtain d where d: "createData exampleGetAxis exampleRocket exampleView = Inr d"
    and al: "axisList d = map (exampleGetAxis (axisParams exampleRocket))
                (filter eligible (polymers exampleView))"
    and ls: "length (ad_size (axisData d)) = sum_list (map segmentCount (axisList d))"
    and lb: "length (ad_begin (axisData d)) = sum_list (map segmentCount (axisList d)) * 3"
    and nth: "\<forall>k i. k < length (axisList d) \<and> i < segmentCount (axisList d ! k) \<longrightarrow>
              ad_size (axisData d) ! (runningOffset (axisList d) k + i)
                = axis_size (axisList d ! k) ! i \<and>
              (\<forall>c < 3.
                 ad_begin (axisData d) ! ((runningOffset (axisList d) k + i) * 3 + c)
                   = axis_begin (axisList d ! k) ! (i * 3 + c) \<and>
                 ad_end (axisData d) ! ((runningOffset (axisList d) k + i) * 3 + c)
                   = axis_end (axisList d ! k) ! (i * 3 + c) \<and>
                 ad_color (axisData d) ! ((runningOffset (axisList d) k + i) * 3 + c)
                   = axis_color (axisList d ! k) ! (i * 3 + c) \<and>
                 ad_pickingColor (axisData d) ! ((runningOffset (axisList d) k + i) * 3 + c)
                   = axis_pickingColor (axisList d ! k) ! (i * 3 + c))"
    by blast
  have sc: "map segmentCount (axisList d) = [3, 0, 5]"
    by (simp add: al exampleView_def ex_filter exampleGetAxis_def axisParams_def
        exampleRocket_def segmentCount_def)
  have ro: "runningOffset (axisList d) 2 = 3 + 0"
    unfolding runningOffset_def using sc by (simp add: take_map [symmetric] numeral_2_eq_2)
  have k: "2 < length (axisList d)" using arg_cong [OF sc, of length] by simp
  have i: "4 < segmentCount (axisList d ! 2)"
    using arg_cong [OF sc, of "\<lambda>xs. xs ! 2"] k by simp
  have c: "(2::nat) < 3" by simp
  note nth [rule_format, of 2 4, OF conjI [OF k i], THEN conjunct2, rule_format, of 2,
      OF c, THEN conjunct1]
  then show ?thesis using d sc ls lb ro by (intro exI [of _ d]) simp
qed


theorem createData_eligibility_witness:
  "\<exists>d. createData exampleGetAxis exampleRocket exampleView = Inr d \<and>
       helixbundleList d =
         [\<lparr>residueCount = 7, isNucleic = False\<rparr>, \<lparr>residueCount = 4, isNucleic = False\<rparr>,
          \<lparr>residueCount = 9, isNucleic = False\<rparr>] \<and>
       length (axisList d) = 3"
proof -
  from createData_result [where getAxis = exampleGetAxis and this = exampleRocket
      and sview = exampleView, OF ex_wf]
  obtain d where d: "createData exampleGetAxis exampleRocket exampleView = Inr d"
    by blast
  from createData_eligibility [OF d] show ?thesis
    using d by (simp add: exampleView_def examplePolymers_def)
qed

subsection \<open>Partial updates and picking\<close>

lemma forEachHelixbundle_frame:
  "forEachHelixbundle ax w hs off ad = (err, ad') \<Longrightarrow>
     ad_begin ad' = ad_begin ad \<and> ad_end ad' = ad_end ad \<and>
     ad_pickingColor ad' = ad_pickingColor ad \<and>
     (\<not> what_color w \<longrightarrow> ad_color ad' = ad_color ad) \<and>
     (\<not> (what_radius w \<or> what_scale w) \<longrightarrow> ad_size ad' = ad_size ad)"
proof (induction hs arbitrary: off ad)
  case Nil
  then show ?case by simp
next
  case (Cons h hs)
  show ?case
  proof (cases "if what_color w then typedArray_set (ad_color ad) (axis_color (ax h)) (off * 3)
               else Inr (ad_color ad)")
    case (Inl e)
    with Cons.prems show ?thesis by (simp add: Let_def)
  next
    case c: (Inr c)
    show ?thesis
    proof (cases "if what_radius w \<or> what_scale w
               then typedArray_set (ad_size ad) (axis_size (ax h)) off
               else Inr (ad_size ad)")
      case (Inl e)
      with c Cons.prems show ?thesis by (auto simp: Let_def split: if_splits)
    next
      case s: (Inr s)
      with c Cons.prems have
        "forEachHelixbundle ax w hs (off + length (axis_size (ax h))) (ad\<lparr>ad_color := c, ad_size := s\<rparr>) = (err, ad')"
        by (simp add: Let_def)
      from Cons.IH [OF this] c s show ?thesis by (auto split: if_splits)
    qed
  qed
qed

lemma setAttributes_frame:
  "name \<notin> fst ` set ds \<Longrightarrow> attributes (snd (setAttributes ds b)) name = attributes b name"
  by (induction ds b rule: setAttributes.induct) (auto split: option.splits)

lemma forEachHelixbundle_step:
  assumes "forEachHelixbundle ax w (h # hs) off ad = (None, ad')"
  obtains c s where
    "(if what_color w then typedArray_set (ad_color ad) (axis_color (ax h)) (off * 3)
      else Inr (ad_color ad)) = Inr c"
    "(if what_radius w \<or> what_scale w then typedArray_set (ad_size ad) (axis_size (ax h)) off
      else Inr (ad_size ad)) = Inr s"
    "forEachHelixbundle ax w hs (off + length (axis_size (ax h)))
       (ad\<lparr>ad_color := c, ad_size := s\<rparr>) = (None, ad')"
  using assms by (auto simp: Let_def split: sum.splits)

lemma forEachHelixbundle_color:
  assumes "forEachHelixbundle ax w hs off ad = (None, ad')" and "what_color w"
    and "\<forall>h \<in> set hs. length (axis_color (ax h)) = segmentCount (ax h) * 3"
  shows "ad_color ad' = take (off * 3) (ad_color ad) @ concat (map (axis_color \<circ> ax) hs)
            @ drop ((off + sum_list (map (segmentCount \<circ> ax) hs)) * 3) (ad_color ad)"
  using assms(1,3)
proof (induction hs arbitrary: off ad)
  case Nil
  then show ?case by simp
next
  case (Cons h hs)
  from Cons.prems(1) obtain c s where
    c: "(if what_color w then typedArray_set (ad_color ad) (axis_color (ax h)) (off * 3)
         else Inr (ad_color ad)) = Inr c"
    and r: "forEachHelixbundle ax w hs (off + length (axis_size (ax h)))
       (ad\<lparr>ad_color := c, ad_size := s\<rparr>) = (None, ad')"
    by (rule forEachHelixbundle_step)
  have l: "length (axis_color (ax h)) = length (axis_size (ax h)) * 3"
    using Cons.prems(2) by (simp add: segmentCount_def)
  from c \<open>what_color w\<close> have w: "length (axis_color (ax h)) + off * 3 \<le> length (ad_color ad)"
    and e: "c = take (off * 3) (ad_color ad) @ axis_color (ax h)
               @ drop (off * 3 + length (axis_color (ax h))) (ad_color ad)"
    by (simp_all add: typedArray_set_Inr)
  have o: "(off + length (axis_size (ax h))) * 3 = off * 3 + length (axis_color (ax h))"
    by (simp add: l algebra_simps)
  have o': "(off + length (axis_size (ax h)) + sum_list (map (segmentCount \<circ> ax) hs)) * 3
      = off * 3 + length (axis_color (ax h)) + sum_list (map (segmentCount \<circ> ax) hs) * 3"
    by (simp add: l algebra_simps)
  have t: "take ((off + length (axis_size (ax h))) * 3) c
      = take (off * 3) (ad_color ad) @ axis_color (ax h)"
    unfolding e o by (rule written_take [OF w])
  have d: "drop ((off + length (axis_size (ax h)) + sum_list (map (segmentCount \<circ> ax) hs)) * 3) c
      = drop ((off + length (axis_size (ax h)) + sum_list (map (segmentCount \<circ> ax) hs)) * 3)
          (ad_color ad)"
    unfolding e o' by (rule written_drop [OF w])
  have w': "\<forall>h \<in> set hs. length (axis_color (ax h)) = segmentCount (ax h) * 3"
    using Cons.prems(2) by simp
  show ?case
    using Cons.IH [OF r w'] t d by (simp add: segmentCount_def [abs_def] add.assoc comp_def)
qed

lemma forEachHelixbundle_size:
  assumes "forEachHelixbundle ax w hs off ad = (None, ad')" and "what_radius w \<or> what_scale w"
  shows "ad_size ad' = take off (ad_size ad) @ concat (map (axis_size \<circ> ax) hs)
            @ drop (off + sum_list (map (segmentCount \<circ> ax) hs)) (ad_size ad)"
  using assms(1)
proof (induction hs arbitrary: off ad)
  case Nil
  then show ?case by simp
next
  case (Cons h hs)
  from Cons.prems(1) obtain c s where
    s: "(if what_radius w \<or> what_scale w then typedArray_set (ad_size ad) (axis_size (ax h)) off
      else Inr (ad_size ad)) = Inr s"
    and r: "forEachHelixbundle ax w hs (off + length (axis_size (ax h)))
       (ad\<lparr>ad_color := c, ad_size := s\<rparr>) = (None, ad')"
    by (rule forEachHelixbundle_step)
  from s assms(2) have w: "length (axis_size (ax h)) + off \<le> length (ad_size ad)"
    and e: "s = take off (ad_size ad) @ axis_size (ax h)
               @ drop (off + length (axis_size (ax h))) (ad_size ad)"
    by (simp_all add: typedArray_set_Inr)
  have t: "take (off + length (axis_size (ax h))) s = take off (ad_size ad) @ axis_size (ax h)"
    unfolding e by (rule written_take [OF w])
  have d: "drop (off + length (axis_size (ax h)) + sum_list (map (segmentCount \<circ> ax) hs)) s
      = drop (off + length (axis_size (ax h)) + sum_list (map (segmentCount \<circ> ax) hs)) (ad_size ad)"
    unfolding e by (rule written_drop [OF w])
  show ?case
    using Cons.IH [OF r] t d by (simp add: segmentCount_def [abs_def] add.assoc comp_def)
qed


lemma updateData_frame:
  assumes np: "\<not> what_position w"
    and run: "updateData getAxis this (Some w) data = (err, this', data')"
  shows "this' = this \<and>
     ad_begin (axisData data') = ad_begin (axisData data) \<and>
     ad_end (axisData data') = ad_end (axisData data) \<and>
     ad_pickingColor (axisData data') = ad_pickingColor (axisData data) \<and>
     (\<not> what_color w \<longrightarrow> ad_color (axisData data') = ad_color (axisData data)) \<and>
     (\<not> what_radius w \<and> \<not> what_scale w \<longrightarrow> ad_size (axisData data') = ad_size (axisData data))"
proof -
  obtain e ad where f: "(if what_color w \<or> what_radius w
                  then forEachHelixbundle (getAxis (axisParams this)) w
                         (helixbundleList data) 0 (axisData data)
                  else (None, axisData data)) = (e, ad)"
    by (cases "if what_color w \<or> what_radius w
                  then forEachHelixbundle (getAxis (axisParams this)) w
                         (helixbundleList data) 0 (axisData data)
                  else (None, axisData data)") blast
  have a: "axisData data' = ad" and t: "this' = this"
    using np run f
    by (auto simp: updateData_def Let_def split: option.splits list.splits prod.splits)
  have "ad_begin ad = ad_begin (axisData data) \<and> ad_end ad = ad_end (axisData data) \<and>
     ad_pickingColor ad = ad_pickingColor (axisData data) \<and>
     (\<not> what_color w \<longrightarrow> ad_color ad = ad_color (axisData data)) \<and>
     (\<not> (what_radius w \<or> what_scale w) \<longrightarrow> ad_size ad = ad_size (axisData data))"
  proof (cases "what_color w \<or> what_radius w")
    case True
    with f have "forEachHelixbundle (getAxis (axisParams this)) w
                         (helixbundleList data) 0 (axisData data) = (e, ad)" by simp
    then show ?thesis by (rule forEachHelixbundle_frame)
  next
    case False
    with f show ?thesis by simp
  qed
  then show ?thesis using a t by simp
qed

lemma updateData_buffers:
  assumes np: "\<not> what_position w"
    and run: "updateData getAxis this (Some w) data = (err, this', data')"
    and bl: "bufferList data = b # bs"
  shows "\<exists>b'. bufferList data' = b' # bs \<and>
           (\<forall>name. name \<notin> fst ` set (cylinderData w (axisData data')) \<longrightarrow>
                attributes b' name = attributes b name)"
proof -
  obtain e ad where f: "(if what_color w \<or> what_radius w
                  then forEachHelixbundle (getAxis (axisParams this)) w
                         (helixbundleList data) 0 (axisData data)
                  else (None, axisData data)) = (e, ad)"
    by (cases "if what_color w \<or> what_radius w
                  then forEachHelixbundle (getAxis (axisParams this)) w
                         (helixbundleList data) 0 (axisData data)
                  else (None, axisData data)") blast
  show ?thesis
  proof (cases e)
    case (Some x)
    with np run f bl show ?thesis by (auto simp: updateData_def Let_def)
  next
    case None
    with np run f bl have "data' = data\<lparr>axisData := ad,
        bufferList := snd (setAttributes (cylinderData w ad) b) # bs\<rparr>"
      by (auto simp: updateData_def Let_def split: prod.splits)
    then show ?thesis by (simp add: setAttributes_frame)
  qed
qed

lemma cylinderData_names:
  "fst ` set (cylinderData w ad) \<subseteq> {''color'', ''color2'', ''radius''}"
  "\<not> what_color w \<Longrightarrow> ''color'' \<notin> fst ` set (cylinderData w ad)"
  "\<not> what_color w \<Longrightarrow> ''color2'' \<notin> fst ` set (cylinderData w ad)"
  "\<not> what_radius w \<and> \<not> what_scale w \<Longrightarrow> ''radius'' \<notin> fst ` set (cylinderData w ad)"
  by (auto simp: cylinderData_def)

lemma label_updateData_frame:
  assumes "label_updateData getAtomData what data = (err, data')"
    and "label_bufferList data = b # bs"
  shows "\<exists>b'. label_bufferList data' = b' # bs \<and>
           (\<forall>name. name \<notin> fst ` set (textData what (getAtomData what)) \<longrightarrow>
                attributes b' name = attributes b name)"
  using assms
  by (auto simp: label_updateData_def Let_def setAttributes_frame split: prod.splits)
     (metis setAttributes_frame snd_conv)+


text \<open>
  C4. An update whose change-set has no position leaves the begin, end and picking
  colour arrays of the axis data as they were, the colour array too unless colour is
  named, the size array too unless radius or scale is named; the lanes written hold the
  recomputed axes one polymer after the other from the running offset; the channels of
  the cylinder buffer other than colour and radius are unchanged. In general
  \<^verbatim>\<open>setAttributes\<close> leaves every channel it is not given unchanged, and so does the
  label representation's update of its text buffer.
\<close>

theorem updateData_partial_channels:
  "(\<not> what_position w \<and> updateData getAxis this (Some w) data = (err, this', data') \<longrightarrow>
      ad_begin (axisData data') = ad_begin (axisData data) \<and>
      ad_end (axisData data') = ad_end (axisData data) \<and>
      ad_pickingColor (axisData data') = ad_pickingColor (axisData data) \<and>
      (\<not> what_color w \<longrightarrow> ad_color (axisData data') = ad_color (axisData data)) \<and>
      (\<not> what_radius w \<and> \<not> what_scale w \<longrightarrow>
         ad_size (axisData data') = ad_size (axisData data)) \<and>
      (err = None \<and> what_color w \<and>
       (\<forall>h \<in> set (helixbundleList data).
          length (axis_color (getAxis (axisParams this) h))
            = segmentCount (getAxis (axisParams this) h) * 3) \<longrightarrow>
         ad_color (axisData data') =
           concat (map (axis_color \<circ> getAxis (axisParams this)) (helixbundleList data)) @
           drop (sum_list (map (segmentCount \<circ> getAxis (axisParams this))
                   (helixbundleList data)) * 3)
             (ad_color (axisData data))) \<and>
      (err = None \<and> what_radius w \<longrightarrow>
         ad_size (axisData data') =
           concat (map (axis_size \<circ> getAxis (axisParams this)) (helixbundleList data)) @
           drop (sum_list (map (segmentCount \<circ> getAxis (axisParams this))
                   (helixbundleList data)))
             (ad_size (axisData data))) \<and>
      (\<forall>b bs. bufferList data = b # bs \<longrightarrow>
         (\<exists>b'. bufferList data' = b' # bs \<and>
            (\<forall>name. name \<notin> {''color'', ''color2'', ''radius''} \<longrightarrow>
               attributes b' name = attributes b name) \<and>
            (\<not> what_color w \<longrightarrow>
               attributes b' ''color'' = attributes b ''color'' \<and>
               attributes b' ''color2'' = attributes b ''color2'') \<and>
            (\<not> what_radius w \<and> \<not> what_scale w \<longrightarrow>
               attributes b' ''radius'' = attributes b ''radius'')))) \<and>
   (\<forall>ds b name. name \<notin> fst ` set ds \<longrightarrow>
      attributes (snd (setAttributes ds b)) name = attributes b name) \<and>
   (label_updateData getAtomData (Some lw) ldata = (lerr, ldata') \<and>
    label_bufferList ldata = tb # tbs \<longrightarrow>
      (\<exists>tb'. label_bufferList ldata' = tb' # tbs \<and>
         (\<not> what_position lw \<longrightarrow> attributes tb' ''position'' = attributes tb ''position'') \<and>
         (\<not> what_radius lw \<longrightarrow> attributes tb' ''size'' = attributes tb ''size'') \<and>
         (\<not> what_color lw \<longrightarrow> attributes tb' ''color'' = attributes tb ''color'') \<and>
         (\<forall>name. name \<notin> {''position'', ''size'', ''color''} \<longrightarrow>
            attributes tb' name = attributes tb name)))"
proof (intro conjI impI)
  assume a: "\<not> what_position w \<and> updateData getAxis this (Some w) data = (err, this', data')"
  then have np: "\<not> what_position w"
    and run: "updateData getAxis this (Some w) data = (err, this', data')"
    by simp_all
  note fr = updateData_frame [OF np run]
  show "ad_begin (axisData data') = ad_begin (axisData data)"
    and "ad_end (axisData data') = ad_end (axisData data)"
    and "ad_pickingColor (axisData data') = ad_pickingColor (axisData data)"
    using fr by simp_all
  show "ad_color (axisData data') = ad_color (axisData data)" if "\<not> what_color w"
    using fr that by simp
  show "ad_size (axisData data') = ad_size (axisData data)"
    if "\<not> what_radius w \<and> \<not> what_scale w"
    using fr that by simp
  have loop: "forEachHelixbundle (getAxis (axisParams this)) w (helixbundleList data) 0
      (axisData data) = (None, axisData data')"
    if "err = None" and "what_color w \<or> what_radius w"
    using np run that
    by (auto simp: updateData_def Let_def split: option.splits list.splits prod.splits)
  show "ad_color (axisData data') =
           concat (map (axis_color \<circ> getAxis (axisParams this)) (helixbundleList data)) @
           drop (sum_list (map (segmentCount \<circ> getAxis (axisParams this))
                   (helixbundleList data)) * 3)
             (ad_color (axisData data))"
    if h: "err = None \<and> what_color w \<and>
       (\<forall>h \<in> set (helixbundleList data).
          length (axis_color (getAxis (axisParams this) h))
            = segmentCount (getAxis (axisParams this) h) * 3)"
    using forEachHelixbundle_color [OF loop, of ] h by simp
  show "ad_size (axisData data') =
           concat (map (axis_size \<circ> getAxis (axisParams this)) (helixbundleList data)) @
           drop (sum_list (map (segmentCount \<circ> getAxis (axisParams this))
                   (helixbundleList data)))
             (ad_size (axisData data))"
    if h: "err = None \<and> what_radius w"
    using forEachHelixbundle_size [OF loop] h by simp
  show "\<forall>b bs. bufferList data = b # bs \<longrightarrow>
         (\<exists>b'. bufferList data' = b' # bs \<and>
            (\<forall>name. name \<notin> {''color'', ''color2'', ''radius''} \<longrightarrow>
               attributes b' name = attributes b name) \<and>
            (\<not> what_color w \<longrightarrow>
               attributes b' ''color'' = attributes b ''color'' \<and>
               attributes b' ''color2'' = attributes b ''color2'') \<and>
            (\<not> what_radius w \<and> \<not> what_scale w \<longrightarrow>
               attributes b' ''radius'' = attributes b ''radius''))"
  proof (intro allI impI)
    fix b bs assume bl: "bufferList data = b # bs"
    from updateData_buffers [OF np run bl] obtain b' where
      b': "bufferList data' = b' # bs"
      and fr: "\<And>name. name \<notin> fst ` set (cylinderData w (axisData data')) \<Longrightarrow>
                attributes b' name = attributes b name"
      by blast
    have "name \<notin> {''color'', ''color2'', ''radius''} \<Longrightarrow> attributes b' name = attributes b name"
      for name
      using cylinderData_names(1) [of w "axisData data'"] by (intro fr) blast
    moreover have "\<not> what_color w \<Longrightarrow> attributes b' ''color'' = attributes b ''color'' \<and>
               attributes b' ''color2'' = attributes b ''color2''"
      using cylinderData_names(2,3) [of w "axisData data'"] fr by blast
    moreover have "\<not> what_radius w \<and> \<not> what_scale w \<Longrightarrow>
        attributes b' ''radius'' = attributes b ''radius''"
      using cylinderData_names(4) [of w "axisData data'"] fr by blast
    ultimately show "\<exists>b'. bufferList data' = b' # bs \<and>
            (\<forall>name. name \<notin> {''color'', ''color2'', ''radius''} \<longrightarrow>
               attributes b' name = attributes b name) \<and>
            (\<not> what_color w \<longrightarrow>
               attributes b' ''color'' = attributes b ''color'' \<and>
               attributes b' ''color2'' = attributes b ''color2'') \<and>
            (\<not> what_radius w \<and> \<not> what_scale w \<longrightarrow>
               attributes b' ''radius'' = attributes b ''radius'')"
      using b' by blast
  qed
next
  show "\<forall>ds b name. name \<notin> fst ` set ds \<longrightarrow>
      attributes (snd (setAttributes ds b)) name = attributes b name"
    by (simp add: setAttributes_frame)
next
  assume "label_updateData getAtomData (Some lw) ldata = (lerr, ldata') \<and>
    label_bufferList ldata = tb # tbs"
  then have run: "label_updateData getAtomData (Some lw) ldata = (lerr, ldata')"
    and bl: "label_bufferList ldata = tb # tbs"
    by simp_all
  from label_updateData_frame [OF run bl] obtain tb' where
    b': "label_bufferList ldata' = tb' # tbs"
    and fr: "\<And>name. name \<notin> fst ` set (textData (Some lw) (getAtomData (Some lw))) \<Longrightarrow>
                attributes tb' name = attributes tb name"
    by blast
  have "\<not> what_position lw \<Longrightarrow> attributes tb' ''position'' = attributes tb ''position''"
    by (rule fr) (auto simp: textData_def)
  moreover have "\<not> what_radius lw \<Longrightarrow> attributes tb' ''size'' = attributes tb ''size''"
    by (rule fr) (auto simp: textData_def)
  moreover have "\<not> what_color lw \<Longrightarrow> attributes tb' ''color'' = attributes tb ''color''"
    by (rule fr) (auto simp: textData_def)
  moreover have "name \<notin> {''position'', ''size'', ''color''} \<Longrightarrow>
            attributes tb' name = attributes tb name" for name
    by (rule fr) (auto simp: textData_def)
  ultimately show "\<exists>tb'. label_bufferList ldata' = tb' # tbs \<and>
         (\<not> what_position lw \<longrightarrow> attributes tb' ''position'' = attributes tb ''position'') \<and>
         (\<not> what_radius lw \<longrightarrow> attributes tb' ''size'' = attributes tb ''size'') \<and>
         (\<not> what_color lw \<longrightarrow> attributes tb' ''color'' = attributes tb ''color'') \<and>
         (\<forall>name. name \<notin> {''position'', ''size'', ''color''} \<longrightarrow>
            attributes tb' name = attributes tb name)"
    using b' by blast
qed

text \<open>
  C5. An update whose change-set has position rebuilds: the data object passed in comes
  back as it was, with no write to its arrays or buffers, and the representation's data
  list is what \<^verbatim>\<open>createData\<close> derives from the tracked view.
\<close>

theorem updateData_position_rebuilds:
  assumes "what_position w"
  shows "\<exists>err this'. updateData getAxis this (Some w) data = (err, this', data) \<and>
           (case createData getAxis this (structureView this) of
              Inl e \<Rightarrow> err = Some e \<and> this' = this
            | Inr d \<Rightarrow> err = None \<and> this' = this\<lparr>dataList := [d]\<rparr>)"
  using assms by (simp add: updateData_def build_def split: sum.splits)

text \<open>
  C6. The buffer is pickable exactly when a picking colour was given; without one no
  picking channel exists, with one the picking channel is as long as the colour channel.
  (Picking colours given for the first endpoint only make the constructor throw.)
\<close>

theorem HyperballStickImpostorBuffer_pickable:
  assumes "pickingColor \<noteq> None \<longrightarrow> pickingColor2 \<noteq> None"
  shows "\<exists>b. HyperballStickImpostorBuffer position1 position2 color color2 radius1 radius2
               pickingColor pickingColor2 p = Inr b \<and>
           (pickable b \<longleftrightarrow> pickingColor \<noteq> None) \<and>
           (pickingColor = None \<longrightarrow>
              attributes b ''pickingColor'' = None \<and> attributes b ''pickingColor2'' = None) \<and>
           (pickingColor \<noteq> None \<longrightarrow>
              (\<exists>c pc. attributes b ''color'' = Some c \<and> attributes b ''pickingColor'' = Some pc \<and>
                 length pc = length c))"
proof (cases pickingColor)
  case None
  then show ?thesis
    by (simp add: HyperballStickImpostorBuffer_def BoxBuffer_def Let_def)
next
  case (Some pc)
  with assms obtain pc2 where "pickingColor2 = Some pc2" by auto
  with Some show ?thesis
    by (simp add: HyperballStickImpostorBuffer_def BoxBuffer_def Let_def copyInto_def
        float32Array_def)
qed


text \<open>The three claims on the concrete structure.\<close>

lemma example_createData:
  "\<exists>d. createData exampleGetAxis exampleRocket exampleView = Inr d \<and>
       length (ad_begin (axisData d)) = 24"
proof -
  from createData_result [where getAxis = exampleGetAxis and this = exampleRocket
      and sview = exampleView, OF ex_wf]
  obtain d where d: "createData exampleGetAxis exampleRocket exampleView = Inr d"
    and a: "ad_begin (axisData d) =
       concat (map axis_begin (map (exampleGetAxis (axisParams exampleRocket))
         (filter eligible (polymers exampleView))))"
    by force
  have "length (ad_begin (axisData d)) = 24"
    unfolding a by (simp add: exampleView_def ex_filter exampleGetAxis_def axisParams_def
        exampleRocket_def)
  with d show ?thesis by blast
qed

theorem updateData_partial_channels_witness:
  "(\<exists>d err this' d'. createData exampleGetAxis exampleRocket exampleView = Inr d \<and>
      updateData exampleGetAxis (exampleRocket\<lparr>colorScheme := ''chainindex''\<rparr>)
        (Some colorOnly) d = (err, this', d') \<and>
      ad_begin (axisData d') = ad_begin (axisData d) \<and>
      ad_end (axisData d') = ad_end (axisData d) \<and>
      ad_size (axisData d') = ad_size (axisData d) \<and>
      length (ad_begin (axisData d')) = 24) \<and>
   (\<exists>lerr ld' tb'.
      label_updateData exampleAtomData (Some colorOnly)
        \<lparr>label_bufferList = [exampleTextBuffer]\<rparr> = (lerr, ld') \<and>
      label_bufferList ld' = [tb'] \<and>
      attributes tb' ''position'' = Some [0, 0, 0, 3, 4, 0] \<and>
      attributes tb' ''size'' = Some [1, 1])"
proof
  from example_createData
  obtain d where d: "createData exampleGetAxis exampleRocket exampleView = Inr d"
    and lb: "length (ad_begin (axisData d)) = 24"
    by blast
  obtain err this' d' where
    u: "updateData exampleGetAxis (exampleRocket\<lparr>colorScheme := ''chainindex''\<rparr>)
          (Some colorOnly) d = (err, this', d')"
    using prod_cases3 by blast
  have np: "\<not> what_position colorOnly \<and>
      updateData exampleGetAxis (exampleRocket\<lparr>colorScheme := ''chainindex''\<rparr>)
          (Some colorOnly) d = (err, this', d')"
    using u by (simp add: colorOnly_def noChange_def)
  have c: "\<not> what_radius colorOnly \<and> \<not> what_scale colorOnly"
    by (simp add: colorOnly_def noChange_def)
  from updateData_partial_channels [THEN conjunct1, rule_format, OF np]
  have "ad_begin (axisData d') = ad_begin (axisData d) \<and>
      ad_end (axisData d') = ad_end (axisData d) \<and>
      ad_size (axisData d') = ad_size (axisData d)"
    using c by blast
  then show "\<exists>d err this' d'. createData exampleGetAxis exampleRocket exampleView = Inr d \<and>
      updateData exampleGetAxis (exampleRocket\<lparr>colorScheme := ''chainindex''\<rparr>)
        (Some colorOnly) d = (err, this', d') \<and>
      ad_begin (axisData d') = ad_begin (axisData d) \<and>
      ad_end (axisData d') = ad_end (axisData d) \<and>
      ad_size (axisData d') = ad_size (axisData d) \<and>
      length (ad_begin (axisData d')) = 24"
    using d u lb by (intro exI [of _ d] exI [of _ err] exI [of _ this'] exI [of _ d']) simp
next
  obtain lerr ld' where
    u: "label_updateData exampleAtomData (Some colorOnly)
        \<lparr>label_bufferList = [exampleTextBuffer]\<rparr> = (lerr, ld')"
    by (cases "label_updateData exampleAtomData (Some colorOnly)
        \<lparr>label_bufferList = [exampleTextBuffer]\<rparr>") blast
  have h: "label_updateData exampleAtomData (Some colorOnly)
        \<lparr>label_bufferList = [exampleTextBuffer]\<rparr> = (lerr, ld') \<and>
      label_bufferList \<lparr>label_bufferList = [exampleTextBuffer]\<rparr> = exampleTextBuffer # []"
    using u by simp
  have c: "\<not> what_position colorOnly \<and> \<not> what_radius colorOnly"
    by (simp add: colorOnly_def noChange_def)
  from updateData_partial_channels [THEN conjunct2, THEN conjunct2, rule_format, OF h]
  obtain tb' where "label_bufferList ld' = [tb']"
    and "attributes tb' ''position'' = attributes exampleTextBuffer ''position''"
    and "attributes tb' ''size'' = attributes exampleTextBuffer ''size''"
    using c by blast
  then show "\<exists>lerr ld' tb'.
      label_updateData exampleAtomData (Some colorOnly)
        \<lparr>label_bufferList = [exampleTextBuffer]\<rparr> = (lerr, ld') \<and>
      label_bufferList ld' = [tb'] \<and>
      attributes tb' ''position'' = Some [0, 0, 0, 3, 4, 0] \<and>
      attributes tb' ''size'' = Some [1, 1]"
    using u by (intro exI [of _ lerr] exI [of _ ld'] exI [of _ tb'])
      (simp add: exampleTextBuffer_def)
qed

theorem updateData_position_rebuilds_witness:
  "\<exists>d. createData exampleGetAxis exampleRocket exampleView = Inr d \<and>
       updateData exampleGetAxis exampleRocket (Some positionOnly) emptyData
         = (None, exampleRocket\<lparr>dataList := [d]\<rparr>, emptyData)"
proof -
  from createData_result [where getAxis = exampleGetAxis and this = exampleRocket
      and sview = exampleView, OF ex_wf]
  obtain d where d: "createData exampleGetAxis exampleRocket exampleView = Inr d"
    by blast
  have p: "what_position positionOnly"
    by (simp add: positionOnly_def noChange_def)
  have v: "structureView exampleRocket = exampleView"
    by (simp add: exampleRocket_def)
  from updateData_position_rebuilds [OF p, of exampleGetAxis exampleRocket emptyData]
  show ?thesis using d by (auto simp: v)
qed

theorem HyperballStickImpostorBuffer_pickable_witness:
  "(\<exists>b. HyperballStickImpostorBuffer [0, 0, 0] [1, 1, 1] [1, 0, 0] [0, 1, 0] [1 / 2] [1 / 2]
          (Some [0, 0, 1]) (Some [0, 0, 1]) \<lparr>shrink = None\<rparr> = Inr b \<and> pickable b \<and>
        (\<exists>c pc. attributes b ''color'' = Some c \<and> attributes b ''pickingColor'' = Some pc \<and>
           length pc = length c)) \<and>
   (\<exists>b. HyperballStickImpostorBuffer [0, 0, 0] [1, 1, 1] [1, 0, 0] [0, 1, 0] [1 / 2] [1 / 2]
          None None \<lparr>shrink = None\<rparr> = Inr b \<and> \<not> pickable b \<and>
        attributes b ''pickingColor'' = None)"
proof
  have h: "Some [0, 0, 1 :: real] \<noteq> None \<longrightarrow> Some [0, 0, 1 :: real] \<noteq> None" by simp
  from HyperballStickImpostorBuffer_pickable [OF h]
  show "\<exists>b. HyperballStickImpostorBuffer [0, 0, 0] [1, 1, 1] [1, 0, 0] [0, 1, 0] [1 / 2] [1 / 2]
          (Some [0, 0, 1]) (Some [0, 0, 1]) \<lparr>shrink = None\<rparr> = Inr b \<and> pickable b \<and>
        (\<exists>c pc. attributes b ''color'' = Some c \<and> attributes b ''pickingColor'' = Some pc \<and>
           length pc = length c)"
    by (metis option.distinct(1))
next
  have h: "(None :: real list option) \<noteq> None \<longrightarrow> (None :: real list option) \<noteq> None" by simp
  from HyperballStickImpostorBuffer_pickable [OF h]
  show "\<exists>b. HyperballStickImpostorBuffer [0, 0, 0] [1, 1, 1] [1, 0, 0] [0, 1, 0] [1 / 2] [1 / 2]
          None None \<lparr>shrink = None\<rparr> = Inr b \<and> \<not> pickable b \<and>
        attributes b ''pickingColor'' = None"
    by metis
qed

subsection \<open>Rounding\<close>

lemma pow2_powr: "pow2 e = 2 powr of_int e"
  by (simp add: pow2_def powr_realpow [symmetric] powr_minus divide_inverse)

lemma pow2_pos: "0 < pow2 e"
  by (simp add: pow2_powr)

lemma pow2_add: "pow2 (a + b) = pow2 a * pow2 b"
  by (simp add: pow2_powr powr_add)

lemma pow2_nat: "0 \<le> e \<Longrightarrow> pow2 e = of_int (2 ^ nat e)"
  by (simp add: pow2_def)

lemma roundToEven_int: "roundToEven (of_int n) = n"
  by (simp add: roundToEven_def)

lemma representableI:
  "x = of_int m * pow2 e \<Longrightarrow> \<bar>m\<bar> < 2 ^ p \<Longrightarrow> emin \<le> e \<Longrightarrow> representable p emin x"
  unfolding representable_def by blast

lemma binaryRound_representable:
  assumes "representable p emin x"
  shows "binaryRound p emin x = x"
proof (cases "x = 0")
  case True
  then show ?thesis by (simp add: binaryRound_def)
next
  case False
  from assms obtain m e' where x: "x = of_int m * pow2 e'" and m: "\<bar>m\<bar> < 2 ^ p" and e': "emin \<le> e'"
    unfolding representable_def by blast
  have m0: "m \<noteq> 0" using False x by auto
  have ax: "\<bar>x\<bar> = of_int \<bar>m\<bar> * pow2 e'"
    using pow2_pos [of e'] by (simp add: x abs_mult)
  have "of_int \<bar>m\<bar> < (2::real) ^ p"
    using m by (metis of_int_less_iff of_int_numeral of_int_power)
  then have "\<bar>x\<bar> < 2 ^ p * pow2 e'"
    using pow2_pos [of e'] by (simp add: ax)
  also have "\<dots> = 2 powr (of_int (int p + e'))"
    by (simp add: pow2_powr powr_add powr_realpow)
  finally have "log 2 \<bar>x\<bar> < of_int (int p + e')"
    using False by (simp add: log_less_iff)
  then have "\<lfloor>log 2 \<bar>x\<bar>\<rfloor> < int p + e'"
    by (simp add: floor_less_iff)
  then have le: "max (\<lfloor>log 2 \<bar>x\<bar>\<rfloor> - (int p - 1)) emin \<le> e'"
    using e' by simp
  define e where "e = max (\<lfloor>log 2 \<bar>x\<bar>\<rfloor> - (int p - 1)) emin"
  have "pow2 e' = pow2 (e' - e) * pow2 e"
    using pow2_add [of "e' - e" e] by simp
  also have "pow2 (e' - e) = of_int (2 ^ nat (e' - e))"
    using le by (intro pow2_nat) (simp add: e_def)
  finally have "x / pow2 e = of_int (m * 2 ^ nat (e' - e))"
    using pow2_pos [of e] by (simp add: x)
  then have q: "x / pow2 e = of_int (m * 2 ^ nat (e' - e))" .
  have "of_int (roundToEven (x / pow2 e)) * pow2 e = (x / pow2 e) * pow2 e"
    unfolding q roundToEven_int ..
  also have "\<dots> = x"
    using pow2_pos [of e] by simp
  finally have "of_int (roundToEven (x / pow2 e)) * pow2 e = x" .
  then show ?thesis
    using False by (simp add: binaryRound_def e_def Let_def)
qed

lemma representable_mono:
  assumes "representable p emin x" and "p \<le> p'" and "emin' \<le> emin"
  shows "representable p' emin' x"
proof -
  from assms(1) obtain m e where x: "x = of_int m * pow2 e" and m: "\<bar>m\<bar> < 2 ^ p"
    and e: "emin \<le> e"
    unfolding representable_def by blast
  have "(2::int) ^ p \<le> 2 ^ p'"
    using assms(2) by (simp add: power_increasing)
  with m have "\<bar>m\<bar> < 2 ^ p'" by linarith
  with x e assms(3) have "x = of_int m * pow2 e \<and> \<bar>m\<bar> < 2 ^ p' \<and> emin' \<le> e"
    by simp
  then show ?thesis unfolding representable_def by blast
qed

lemma representable_double:
  "representable p emin x \<Longrightarrow> representable p (emin + 1) (2 * x)"
  unfolding representable_def
proof (elim exE conjE)
  fix m e assume "x = of_int m * pow2 e" "\<bar>m\<bar> < 2 ^ p" "emin \<le> e"
  then have "2 * x = of_int m * pow2 (e + 1) \<and> \<bar>m\<bar> < 2 ^ p \<and> emin + 1 \<le> e + 1"
    using pow2_add [of e 1] by (simp add: pow2_def)
  then show "\<exists>m e. 2 * x = of_int m * pow2 e \<and> \<bar>m\<bar> < 2 ^ p \<and> emin + 1 \<le> e"
    by blast
qed

lemma toFloat32_exact: "float32Value v \<Longrightarrow> toFloat32 v = v"
  by (cases v) (simp_all add: toFloat32_def binaryRound_representable)

lemma toDouble_exact:
  assumes "representable 53 (- 1074) x" and "\<bar>x\<bar> < 2 ^ 1024"
  shows "toDouble x = Finite x"
  using assms by (simp add: toDouble_def binaryRound_representable)

lemma stored_exact:
  assumes "float32Value (Finite ((a + b) / 2))"
  shows "toFloat32 (number_half (number_add (Finite a) (Finite b))) = Finite ((a + b) / 2)"
proof -
  define m where "m = (a + b) / 2"
  have ab: "a + b = 2 * m" by (simp add: m_def)
  from assms have r: "representable 24 (- 149) m" and b: "\<bar>m\<bar> < 2 ^ 128"
    by (simp_all add: m_def)
  have "representable 24 (- 149 + 1) (2 * m)"
    using r by (rule representable_double)
  then have r2: "representable 53 (- 1074) (2 * m)"
    by (rule representable_mono) simp_all
  have "\<bar>2 * m\<bar> < 2 * 2 ^ 128" using b by simp
  also have "\<dots> < (2::real) ^ 1024" by simp
  finally have s: "toDouble (a + b) = Finite (2 * m)"
    unfolding ab using r2 by (intro toDouble_exact)
  have r1: "representable 53 (- 1074) m"
    using r by (rule representable_mono) simp_all
  have "\<bar>m\<bar> < (2::real) ^ 1024"
    using b by (rule less_trans) simp
  then have h: "toDouble m = Finite m"
    using r1 by (intro toDouble_exact)
  show ?thesis
    using s h toFloat32_exact [OF assms] by (simp add: m_def [symmetric])
qed




subsection \<open>Pairwise distances\<close>

declare decimal.simps [simp del]

lemma put3:
  assumes "k + 3 \<le> length p"
  shows "typedArray_put (typedArray_put (typedArray_put p (k + 0) a) (k + 1) b) (k + 2) c
       = take k p @ map toFloat32 [a, b, c] @ drop (k + length [a, b, c]) p"
proof -
  define a' where "a' = toFloat32 a"
  define b' where "b' = toFloat32 b"
  define c' where "c' = toFloat32 c"
  have "p[k := a', Suc k := b', Suc (Suc k) := c'] = take k p @ a' # b' # c' # drop (k + 3) p"
  proof (rule nth_equalityI)
    show "length (p[k := a', Suc k := b', Suc (Suc k) := c'])
        = length (take k p @ a' # b' # c' # drop (k + 3) p)"
      using assms by simp
  next
    fix i assume "i < length (p[k := a', Suc k := b', Suc (Suc k) := c'])"
    then have i: "i < length p" by simp
    consider "i < k" | "i = k" | "i = Suc k" | "i = Suc (Suc k)" | "k + 3 \<le> i" by linarith
    then show "p[k := a', Suc k := b', Suc (Suc k) := c'] ! i
        = (take k p @ a' # b' # c' # drop (k + 3) p) ! i"
    proof cases
      case 5
      then obtain d where d: "i = k + 3 + d" using le_Suc_ex by blast
      with i assms show ?thesis by (simp add: nth_append)
    qed (use i assms in \<open>simp_all add: nth_append\<close>)
  qed
  with assms show ?thesis
    by (simp add: typedArray_put_def eval_nat_numeral a'_def b'_def c'_def)
qed

lemma put1:
  "k < length t \<Longrightarrow> array_put t k v = take k t @ [Some v] @ drop (k + length [Some v]) t"
  by (simp add: array_put_def upd_conv_take_nth_drop)

lemma forEachPair_unresolved:
  "\<not> resolves sview pair \<Longrightarrow>
     forEachPair nts sview (pair # ps) i (j, tx, position, bs)
       = forEachPair nts sview ps (i + 1) (j + 1, tx, position, bs)"
  by (auto simp: resolves_def Let_def split: list.splits)

lemma pairDouble_three: "\<exists>a b c. pairDouble sview pair = [a, b, c]"
proof -
  obtain x1 y1 z1 x2 y2 z2 where
    "atomPosition sview (representative sview (fst pair)) = (x1, y1, z1)"
    "atomPosition sview (representative sview (snd pair)) = (x2, y2, z2)"
    using prod_cases3 by metis
  then have "pairDouble sview pair =
      [number_half (number_add x1 x2), number_half (number_add y1 y2),
       number_half (number_add z1 z2)]"
    by (simp add: pairDouble_def doubleMidpoint_def)
  then show ?thesis by blast
qed

lemma pairMidpoint_pairDouble: "pairMidpoint sview pair = map toFloat32 (pairDouble sview pair)"
  by (simp add: pairMidpoint_def pairDouble_def storedMidpoint_def)

lemma pairMidpoint_length: "length (pairMidpoint sview pair) = 3"
  using pairDouble_three [of sview pair] by (auto simp: pairMidpoint_pairDouble)

lemma forEachPair_resolved:
  assumes "resolves sview pair"
  shows "forEachPair nts sview (pair # ps) i (j, tx, position, bs)
       = forEachPair nts sview ps (i + 1)
           (j, array_put tx (i - j) (pairLabel nts sview pair),
            typedArray_put
              (typedArray_put
                 (typedArray_put position ((i - j) * 3 + 0) (pairDouble sview pair ! 0))
                 ((i - j) * 3 + 1) (pairDouble sview pair ! 1))
              ((i - j) * 3 + 2) (pairDouble sview pair ! 2),
            bs @ [pairBond sview pair])"
proof -
  from assms(1) obtain ap1 r1 ap2 r2 where
    a: "getAtomIndices sview (fst pair) = ap1 # r1" "getAtomIndices sview (snd pair) = ap2 # r2"
    by (auto simp: resolves_def neq_Nil_conv)
  obtain x1 y1 z1 x2 y2 z2 where
    p: "atomPosition sview ap1 = (x1, y1, z1)" "atomPosition sview ap2 = (x2, y2, z2)"
    using prod_cases3 by metis
  show ?thesis
    using a p
    by (simp add: pairLabel_def pairBond_def pairDouble_def doubleMidpoint_def
        representative_def addBond_def Let_def)
qed

declare forEachPair.simps(2) [simp del]

lemma forEachPair_result:
  assumes "j \<le> i" and "i - j + length ps \<le> n" and "length tx = n" and "length position = n * 3"
  shows "forEachPair nts sview ps i (j, tx, position, bs) =
     (j + length (filter (\<lambda>p. \<not> resolves sview p) ps),
      take (i - j) tx @ map (\<lambda>p. Some (pairLabel nts sview p)) (filter (resolves sview) ps)
        @ drop (i - j + length (filter (resolves sview) ps)) tx,
      take ((i - j) * 3) position @ concat (map (pairMidpoint sview) (filter (resolves sview) ps))
        @ drop ((i - j + length (filter (resolves sview) ps)) * 3) position,
      bs @ map (pairBond sview) (filter (resolves sview) ps))"
  using assms
proof (induction ps arbitrary: i j tx position bs)
  case Nil
  then show ?case by simp
next
  case (Cons pair ps)
  show ?case
  proof (cases "resolves sview pair")
    case False
    have "forEachPair nts sview ps (i + 1) (j + 1, tx, position, bs) =
     (j + 1 + length (filter (\<lambda>p. \<not> resolves sview p) ps),
      take (i + 1 - (j + 1)) tx @ map (\<lambda>p. Some (pairLabel nts sview p)) (filter (resolves sview) ps)
        @ drop (i + 1 - (j + 1) + length (filter (resolves sview) ps)) tx,
      take ((i + 1 - (j + 1)) * 3) position @ concat (map (pairMidpoint sview) (filter (resolves sview) ps))
        @ drop ((i + 1 - (j + 1) + length (filter (resolves sview) ps)) * 3) position,
      bs @ map (pairBond sview) (filter (resolves sview) ps))"
      using Cons.prems by (intro Cons.IH) simp_all
    with False show ?thesis by (simp add: forEachPair_unresolved)
  next
    case True
    define r where "r = i - j"
    obtain a b c where m: "pairDouble sview pair = [a, b, c]"
      using pairDouble_three by blast
    have m': "pairMidpoint sview pair = map toFloat32 [a, b, c]"
      by (simp only: pairMidpoint_pairDouble m)
    define text1 where "text1 = array_put tx r (pairLabel nts sview pair)"
    define pos1 where "pos1 =
       typedArray_put (typedArray_put (typedArray_put position (r * 3 + 0) a) (r * 3 + 1) b)
         (r * 3 + 2) c"
    have rn: "r < n" using Cons.prems by (simp add: r_def)
    have wt: "length [Some (pairLabel nts sview pair)] + r \<le> length tx"
      using rn Cons.prems by simp
    have wp: "length (map toFloat32 [a, b, c]) + r * 3 \<le> length position"
      using rn Cons.prems by simp
    have t1: "text1 = take r tx @ [Some (pairLabel nts sview pair)]
        @ drop (r + length [Some (pairLabel nts sview pair)]) tx"
      unfolding text1_def using rn Cons.prems by (intro put1) simp
    have p0: "pos1 = take (r * 3) position @ map toFloat32 [a, b, c]
        @ drop (r * 3 + length [a, b, c]) position"
      unfolding pos1_def using wp by (intro put3) simp
    have p1: "pos1 = take (r * 3) position @ map toFloat32 [a, b, c]
        @ drop (r * 3 + length (map toFloat32 [a, b, c])) position"
      using p0 by simp
    have r1: "i + 1 - j = r + 1" using Cons.prems by (simp add: r_def)
    have step: "forEachPair nts sview (pair # ps) i (j, tx, position, bs)
        = forEachPair nts sview ps (i + 1) (j, text1, pos1, bs @ [pairBond sview pair])"
      using forEachPair_resolved [OF True] by (simp add: m text1_def pos1_def r_def)
    have ih: "forEachPair nts sview ps (i + 1) (j, text1, pos1, bs @ [pairBond sview pair]) =
     (j + length (filter (\<lambda>p. \<not> resolves sview p) ps),
      take (i + 1 - j) text1 @ map (\<lambda>p. Some (pairLabel nts sview p)) (filter (resolves sview) ps)
        @ drop (i + 1 - j + length (filter (resolves sview) ps)) text1,
      take ((i + 1 - j) * 3) pos1 @ concat (map (pairMidpoint sview) (filter (resolves sview) ps))
        @ drop ((i + 1 - j + length (filter (resolves sview) ps)) * 3) pos1,
      (bs @ [pairBond sview pair]) @ map (pairBond sview) (filter (resolves sview) ps))"
      using Cons.prems rn by (intro Cons.IH) (simp_all add: t1 p0 r_def)
    have e1: "r + 1 = r + length [Some (pairLabel nts sview pair)]" by simp
    have e1': "r + 1 + m = r + length [Some (pairLabel nts sview pair)] + m" for m by simp
    have e3: "(r + 1) * 3 = r * 3 + length (map toFloat32 [a, b, c])" by simp
    have e3': "(r + 1 + m) * 3 = r * 3 + length (map toFloat32 [a, b, c]) + m * 3" for m
      by (simp add: algebra_simps)
    have tt: "take (r + 1) text1 = take r tx @ [Some (pairLabel nts sview pair)]"
      unfolding t1 e1 by (rule written_take [OF wt])
    have td: "drop (r + 1 + m) text1 = drop (r + 1 + m) tx" for m
      unfolding t1 e1' by (rule written_drop [OF wt])
    have pt: "take ((r + 1) * 3) pos1 = take (r * 3) position @ map toFloat32 [a, b, c]"
      unfolding p1 e3 by (rule written_take [OF wp])
    have pd: "drop ((r + 1 + m) * 3) pos1 = drop ((r + 1 + m) * 3) position" for m
      unfolding p1 e3' by (rule written_drop [OF wp])
    show ?thesis
      unfolding step ih r1 tt td pt pd
      using True by (simp add: m' r_def [symmetric])
  qed
qed

lemma getDistanceData_result:
  "getDistanceData nts sview atomPair =
     \<lparr>dd_text = map (\<lambda>p. Some (pairLabel nts sview p)) (filter (resolves sview) atomPair)
          @ replicate (length atomPair - length (filter (resolves sview) atomPair)) None,
      dd_position = concat (map (pairMidpoint sview) (filter (resolves sview) atomPair)),
      dd_bondSet = replicate (length (filter (resolves sview) atomPair)) True,
      dd_bondStore = map (pairBond sview) (filter (resolves sview) atomPair)\<rparr>"
proof -
  define n where "n = length atomPair"
  define R where "R = filter (resolves sview) atomPair"
  define j where "j = length (filter (\<lambda>p. \<not> resolves sview p) atomPair)"
  have nj: "length R + j = n"
    unfolding R_def j_def n_def by (rule sum_length_filter_compl)
  have l3: "length (concat (map (pairMidpoint sview) R)) = length R * 3"
    by (simp add: length_concat comp_def sum_list_triv pairMidpoint_length)
  have run: "forEachPair nts sview atomPair 0 (0, newArray n, float32Array (n * 3), []) =
     (j, map (\<lambda>p. Some (pairLabel nts sview p)) R @ replicate (n - length R) None,
      concat (map (pairMidpoint sview) R) @ replicate ((n - length R) * 3) 0,
      map (pairBond sview) R)"
    using forEachPair_result [of 0 0 atomPair n "newArray n" "float32Array (n * 3)" nts sview "[]"]
    by (simp add: n_def R_def j_def newArray_def float32Array_def diff_mult_distrib)
  have pos: "(if j > 0
       then subarray (concat (map (pairMidpoint sview) R) @ replicate ((n - length R) * 3) 0)
              0 ((n - j) * 3)
       else concat (map (pairMidpoint sview) R) @ replicate ((n - length R) * 3) 0)
      = concat (map (pairMidpoint sview) R)"
    using nj l3 by (auto simp: subarray_def)
  show ?thesis
    using run pos
    by (simp add: getDistanceData_def Let_def n_def [symmetric] R_def [symmetric])
qed

lemma getDistanceData_lengths:
  "length (dd_position (getDistanceData nts sview atomPair))
     = length (filter (resolves sview) atomPair) * 3 \<and>
   length (dd_bondStore (getDistanceData nts sview atomPair))
     = length (filter (resolves sview) atomPair) \<and>
   length (dd_text (getDistanceData nts sview atomPair)) = length atomPair"
  by (simp add: getDistanceData_result length_concat comp_def sum_list_triv pairMidpoint_length)


subsection \<open>The text of a distance\<close>












lemma toFixed_5: "toFixed nts (Finite 5) 2 = ''5.00''"
  by (simp add: toFixed_def decimal.simps Let_def)



text \<open>
  C9. With no atom in the view, or with an empty pair list, \<^verbatim>\<open>create\<close> returns at once:
  no exception, no buffer, no data entry; the representation is as it was.
\<close>

theorem create_noop_on_empty:
  assumes "atomCount (dr_structureView this) = 0 \<or> dr_atomPair this = []"
  shows "create numberToString getBondData this = (None, this)"
  using assms by (auto simp: create_def Let_def)

subsection \<open>The pairwise distances on the concrete structures\<close>

lemma example_resolved:
  "filter (resolves exampleView) [(''A'', ''B''), (''A'', ''Z'')] = [(''A'', ''B'')]"
  by (simp add: resolves_def exampleView_def)


lemma float32Value_examples:
  "float32Value (Finite 0)" "float32Value (Finite (3 / 2))" "float32Value (Finite 2)"
proof -
  have "representable 24 (- 149) 0"
    by (rule representableI [of _ 0 0]) simp_all
  then show "float32Value (Finite 0)" by simp
  have "representable 24 (- 149) (3 / 2)"
    by (rule representableI [of _ 3 "- 1"]) (simp_all add: pow2_def)
  then show "float32Value (Finite (3 / 2))" by simp
  have "representable 24 (- 149) 2"
    by (rule representableI [of _ 1 1]) (simp_all add: pow2_def)
  then show "float32Value (Finite 2)" by simp
qed


lemma example_stored:
  "storedMidpoint (Finite 0, Finite 0, Finite 0) (Finite 3, Finite 4, Finite 0)
     = [Finite (3 / 2), Finite 2, Finite 0]"
proof -
  have x: "toFloat32 (number_half (number_add (Finite 0) (Finite 3))) = Finite (3 / 2)"
    using stored_exact [of 0 3] float32Value_examples(2) by simp
  have y: "toFloat32 (number_half (number_add (Finite 0) (Finite 4))) = Finite 2"
    using stored_exact [of 0 4] float32Value_examples(3) by simp
  have z: "toFloat32 (number_half (number_add (Finite 0) (Finite 0))) = Finite 0"
    using stored_exact [of 0 0] float32Value_examples(1) by simp
  show ?thesis
    unfolding storedMidpoint_def doubleMidpoint_def by (simp only: prod.case list.map x y z)
qed


theorem create_noop_on_empty_witness:
  "create exampleNumberToString exampleBondData (exampleDistance\<lparr>dr_atomPair := []\<rparr>)
     = (None, exampleDistance\<lparr>dr_atomPair := []\<rparr>)"
proof -
  have "atomCount (dr_structureView (exampleDistance\<lparr>dr_atomPair := []\<rparr>)) = 0 \<or>
      dr_atomPair (exampleDistance\<lparr>dr_atomPair := []\<rparr>) = []"
    by simp
  then show ?thesis by (rule create_noop_on_empty)
qed




text \<open>
  C1. The pair list A-B, A-Z on the concrete structure, where Z selects nothing: the
  pair A-Z is dropped without an exception and the position array has the three slots of
  the one resolved pair, but the text array keeps two entries, the second a hole, and the
  size and colour arrays are made for two labels.
\<close>

theorem create_dropped_pair_lengths:
  "\<exists>this' tb. create numberToString exampleBondData exampleDistance = (None, this') \<and>
     dr_textBuffer this' = Some tb \<and>
     length (filter (resolves exampleView) (dr_atomPair exampleDistance)) = 1 \<and>
     tb_text tb = [Some ''5.00'', None] \<and> length (tb_text tb) = 2 \<and>
     tb_position tb = [Finite (3 / 2), Finite 2, Finite 0] \<and> length (tb_position tb) = 3 \<and>
     tb_size tb = [2, 2] \<and> length (tb_size tb) = 2 \<and>
     tb_color tb = [1, 1, 1, 1, 1, 1] \<and> length (tb_color tb) = 6"
proof -
  have pm: "pairMidpoint exampleView (''A'', ''B'') = [Finite (3 / 2), Finite 2, Finite 0]"
    by (simp add: pairMidpoint_def representative_def exampleView_def example_stored)
  have g: "getDistanceData numberToString exampleView [(''A'', ''B''), (''A'', ''Z'')] =
      \<lparr>dd_text = [Some ''5.00'', None], dd_position = [Finite (3 / 2), Finite 2, Finite 0],
       dd_bondSet = [True], dd_bondStore = [(0, 1, 1)]\<rparr>"
    unfolding getDistanceData_result example_resolved
    by (simp add: pm) (simp add: pairLabel_def pairBond_def representative_def
        exampleView_def toFixed_5)
  have e: "dr_structureView exampleDistance = exampleView"
    "dr_atomPair exampleDistance = [(''A'', ''B''), (''A'', ''Z'')]"
    "dr_labelColor exampleDistance = (1, 1, 1)" "dr_labelSize exampleDistance = 2"
    by (simp_all add: exampleDistance_def)
  have a: "atomCount exampleView = 2" by (simp add: exampleView_def)
  have cb: "CylinderBuffer f t c c2 r None None p \<noteq> Inl err" for f t c c2 r p err
    by (simp add: CylinderBuffer_def BoxBuffer_def Let_def)
  have pc: "bd_pickingColor1 (exampleBondData v w bits bs) = None"
    "bd_pickingColor2 (exampleBondData v w bits bs) = None" for v w bits bs
    by (simp_all add: exampleBondData_def)
  have len: "length (filter (resolves exampleView) (dr_atomPair exampleDistance)) = 1"
    unfolding e example_resolved by simp
  show ?thesis
    unfolding len
    by (auto simp: create_def Let_def e a g pc cb uniformArray_def uniformArray3_def
        split: sum.splits)
qed

subsection \<open>Camera distance\<close>

text \<open>
  C8. When the viewer's \<^verbatim>\<open>updateZoom\<close> and \<^verbatim>\<open>requestRender\<close> leave the camera position and
  the two groups alone, \<^verbatim>\<open>distance( z )\<close> makes the camera's depth \<open>z\<close>, keeps its other two
  coordinates, and keeps the rotation and the translation of the scene.
\<close>

theorem distance_sets_depth:
  assumes "keepsOrientation updateZoom" and "keepsOrientation requestRender"
  shows "snd (snd (camera_position (distance updateZoom requestRender z v))) = z \<and>
         fst (camera_position (distance updateZoom requestRender z v)) = fst (camera_position v) \<and>
         fst (snd (camera_position (distance updateZoom requestRender z v)))
           = fst (snd (camera_position v)) \<and>
         controls_rotation (distance updateZoom requestRender z v) = controls_rotation v \<and>
         rotationGroup_matrix (distance updateZoom requestRender z v) = rotationGroup_matrix v \<and>
         controls_position (distance updateZoom requestRender z v) = controls_position v"
  using assms
  by (simp add: keepsOrientation_def distance_def controls_rotation_def controls_position_def split: prod.splits)

theorem distance_sets_depth_witness:
  "camera_position (distance exampleUpdateZoom exampleRequestRender (- 80) exampleViewer)
     = (0, 0, - 80) \<and>
   controls_rotation (distance exampleUpdateZoom exampleRequestRender (- 80) exampleViewer)
     = (0, 0, 0, 1) \<and>
   controls_position (distance exampleUpdateZoom exampleRequestRender (- 80) exampleViewer) = (1, 2, 3)"
proof -
  have u: "keepsOrientation exampleUpdateZoom"
    by (simp add: keepsOrientation_def exampleUpdateZoom_def)
  have r: "keepsOrientation exampleRequestRender"
    by (simp add: keepsOrientation_def exampleRequestRender_def)
  from distance_sets_depth [OF u r, of "- 80" exampleViewer]
  show ?thesis
    by (simp add: prod_eq_iff exampleViewer_def controls_rotation_def controls_position_def)
qed

subsection \<open>Orientation round trip\<close>

lemma exampleOrientation_elements:
  "exampleOrientation = [- 2, 0, 0, 0, 0, - 2, 0, 0, 0, 0, 2, 0, 1, 2, 3, 1]"
  by (simp add: exampleOrientation_def matrix4_compose_def)

lemma sqrt_4: "sqrt 4 = 2"
  using real_sqrt_abs [of 2] by simp

lemma exampleOrientation_decompose:
  "matrix4_decompose exampleOrientation = ((1, 2, 3), (0, 0, 1, 0), (2, 2, 2))"
  unfolding exampleOrientation_elements
  by (simp add: matrix4_decompose_def matrix4_determinant_def setFromRotationMatrix_def sqrt_4)

lemma identity_turn_decompose:
  "matrix4_decompose [2, 0, 0, 0, 0, 2, 0, 0, 0, 0, 2, 0, 1, 2, 3, 1]
     = ((1, 2, 3), (0, 0, 0, 1), (2, 2, 2))"
  by (simp add: matrix4_decompose_def matrix4_determinant_def setFromRotationMatrix_def sqrt_4)

text \<open>
  C7. When \<^verbatim>\<open>requestRender\<close> leaves the camera position and the two groups alone,
  \<^verbatim>\<open>setOrientation\<close> stores the quaternion, the position and the scale of the orientation
  but leaves the matrix of the rotation group as it was, and the matrix that
  \<^verbatim>\<open>getOrientation\<close> returns next is that earlier matrix with the scale and the position
  of the orientation: its rotation is the one the viewer had before the call, whatever the
  rotation of the orientation is.
\<close>

theorem setOrientation_getOrientation_stale_rotation:
  assumes "keepsOrientation requestRender"
    and "decompose orientation = (p, q, (sx, sy, sz))"
  shows "controls_rotation (setOrientation decompose requestRender orientation v) = q \<and>
         controls_position (setOrientation decompose requestRender orientation v) = p \<and>
         rotationGroup_matrix (setOrientation decompose requestRender orientation v)
           = rotationGroup_matrix v \<and>
         getOrientation matrixScale matrixSetPosition
             (setOrientation decompose requestRender orientation v)
           = matrixSetPosition (matrixScale (rotationGroup_matrix v) (sz, sz, sz)) p"
  using assms
  by (simp add: keepsOrientation_def setOrientation_def getOrientation_def controls_rotation_def
      controls_position_def Let_def split: prod.splits)

theorem setOrientation_getOrientation_stale_rotation_witness:
  "matrix4_decompose exampleOrientation = ((1, 2, 3), (0, 0, 1, 0), (2, 2, 2)) \<and>
   controls_rotation (setOrientation matrix4_decompose exampleRequestRender exampleOrientation
     exampleViewer) = (0, 0, 1, 0) \<and>
   getOrientation matrix4_scale matrix4_setPosition
       (setOrientation matrix4_decompose exampleRequestRender exampleOrientation exampleViewer)
     = [2, 0, 0, 0, 0, 2, 0, 0, 0, 0, 2, 0, 1, 2, 3, 1] \<and>
   matrix4_decompose
       (getOrientation matrix4_scale matrix4_setPosition
          (setOrientation matrix4_decompose exampleRequestRender exampleOrientation exampleViewer))
     = ((1, 2, 3), (0, 0, 0, 1), (2, 2, 2)) \<and>
   getOrientation matrix4_scale matrix4_setPosition
       (setOrientation matrix4_decompose exampleRequestRender exampleOrientation exampleViewer)
     \<noteq> exampleOrientation"
proof -
  have r: "keepsOrientation exampleRequestRender"
    by (simp add: keepsOrientation_def exampleRequestRender_def)
  have m: "matrix4_setPosition
        (matrix4_scale (rotationGroup_matrix exampleViewer) (2, 2, 2)) (1, 2, 3)
      = [2, 0, 0, 0, 0, 2, 0, 0, 0, 0, 2, 0, 1, 2, 3, 1]"
    by (simp add: exampleViewer_def matrix4_scale_def matrix4_setPosition_def)
  note t = setOrientation_getOrientation_stale_rotation
    [where decompose = matrix4_decompose and orientation = exampleOrientation
       and v = exampleViewer and matrixScale = matrix4_scale
       and matrixSetPosition = matrix4_setPosition,
     OF r exampleOrientation_decompose]
  from t have q: "controls_rotation
      (setOrientation matrix4_decompose exampleRequestRender exampleOrientation exampleViewer)
      = (0, 0, 1, 0)"
    by simp
  from t have g: "getOrientation matrix4_scale matrix4_setPosition
      (setOrientation matrix4_decompose exampleRequestRender exampleOrientation exampleViewer)
      = [2, 0, 0, 0, 0, 2, 0, 0, 0, 0, 2, 0, 1, 2, 3, 1]"
    unfolding m by simp
  have ne: "[2, 0, 0, 0, 0, 2, 0, 0, 0, 0, 2, 0, 1, 2, 3, 1] \<noteq> exampleOrientation"
    unfolding exampleOrientation_elements by simp
  show ?thesis
    unfolding g q using ne by (simp add: exampleOrientation_decompose identity_turn_decompose)
qed

end
